theory Spec2Isabelle
  imports Main "HOL-Library.AList"
begin

section \<open>Data model of storage/storage.go\<close>

text \<open>
  Byte slices are lists of 8-bit characters, so \<open>[]byte(key)\<close> is the identity.
  A \<open>time.Time\<close> and a \<open>time.Duration\<close> are integers counting nanoseconds.
\<close>

type_synonym bytes = string
type_synonym Time = int
type_synonym Duration = int

text \<open>
  Go error values. \<open>ServiceError c\<close> is an \<open>*oss.ServiceError\<close> whose
  \<open>ErrorCode()\<close> is \<open>c\<close>; \<open>OtherError\<close> is any other error of the SDK, the
  transport or the AEAD; \<open>Canceled\<close> and \<open>DeadlineExceeded\<close> are the two values
  of \<open>ctx.Err()\<close>; \<open>ErrNotExist\<close> is \<open>fs.ErrNotExist\<close>; \<open>Errorf m e\<close> is
  \<open>fmt.Errorf(m + ": %w", e)\<close>, which wraps \<open>e\<close>.
\<close>

datatype error =
    ServiceError string
  | OtherError string
  | Canceled
  | DeadlineExceeded
  | ErrNotExist
  | Errorf string error

text \<open>\<open>errors.As(err, &serviceErr)\<close> followed by \<open>serviceErr.ErrorCode()\<close>:
  the first service error on the chain of wrapped errors.\<close>

fun as_ServiceError :: "error \<Rightarrow> string option" where
  "as_ServiceError (ServiceError c) = Some c"
| "as_ServiceError (Errorf m e) = as_ServiceError e"
| "as_ServiceError e = None"

text \<open>The error at the end of the chain of wrapped errors.\<close>

fun Unwrap_all :: "error \<Rightarrow> error" where
  "Unwrap_all (Errorf m e) = Unwrap_all e"
| "Unwrap_all e = e"

definition is_NoSuchKey :: "error \<Rightarrow> bool" where
  "is_NoSuchKey err \<longleftrightarrow> as_ServiceError err = Some ''NoSuchKey''"

text \<open>The test of line 285: the conditional put found the object in place.\<close>

definition is_AlreadyExists :: "error \<Rightarrow> bool" where
  "is_AlreadyExists err \<longleftrightarrow>
     (case as_ServiceError err of
        None \<Rightarrow> False
      | Some c \<Rightarrow> c = ''PreconditionFailed'' \<or> c = ''ObjectAlreadyExists''
                  \<or> c = ''FileAlreadyExists'')"

text \<open>A context is the background context, which is never done, or the context the
  caller supplies, which the environment may cancel.\<close>

datatype Context = Background | CallerCtx

record ObjectRequest =
  req_Bucket :: string
  req_Key :: string

record PutObjectRequest = ObjectRequest +
  req_Body :: bytes
  req_ForbidOverwrite :: "string option"

record ListObjectsV2Request =
  list_Bucket :: string
  list_Prefix :: string
  list_Delimiter :: "string option"

text \<open>\<open>get_Body\<close> is the outcome of \<open>io.ReadAll(result.Body)\<close>.\<close>

record GetObjectResult =
  get_Body :: "error + bytes"

record HeadObjectResult =
  LastModified :: "Time option"
  ContentLength :: int

record ListObjectsV2Result =
  Contents :: "string list"
  CommonPrefixes :: "string list"

text \<open>
  The object-storage client, an external collaborator: each call takes the state of
  the outside world and returns its answer with the new state. The paginator of
  \<open>NewListObjectsV2Paginator\<close> is the list of the answers \<open>NextPage\<close> gives
  until \<open>HasNext\<close> is false.
\<close>

record 's client =
  PutObject :: "Context \<Rightarrow> PutObjectRequest \<Rightarrow> 's \<Rightarrow> error option \<times> 's"
  GetObject :: "Context \<Rightarrow> ObjectRequest \<Rightarrow> 's \<Rightarrow> (error + GetObjectResult) \<times> 's"
  DeleteObject :: "Context \<Rightarrow> ObjectRequest \<Rightarrow> 's \<Rightarrow> error option \<times> 's"
  HeadObject :: "Context \<Rightarrow> ObjectRequest \<Rightarrow> 's \<Rightarrow> (error + HeadObjectResult) \<times> 's"
  ListObjectsV2Pages ::
    "Context \<Rightarrow> ListObjectsV2Request \<Rightarrow> 's \<Rightarrow> (error + ListObjectsV2Result) list \<times> 's"

text \<open>The Go runtime as \<open>Lock\<close> uses it: the clock, and the \<open>select\<close> between
  \<open>time.After(d)\<close> and \<open>ctx.Done()\<close>, which returns \<open>ctx.Err()\<close> in the second
  case.\<close>

datatype wake = TimerFired | CtxDone error

record 's runtime =
  time_Now :: "'s \<Rightarrow> Time \<times> 's"
  select_After :: "Duration \<Rightarrow> Context \<Rightarrow> 's \<Rightarrow> wake \<times> 's"

text \<open>\<open>tink.AEAD\<close>: both methods take the payload and the associated data.\<close>

record AEAD =
  Encrypt :: "bytes \<Rightarrow> bytes \<Rightarrow> error + bytes"
  Decrypt :: "bytes \<Rightarrow> bytes \<Rightarrow> error + bytes"

definition cleartext :: AEAD where
  "cleartext = \<lparr> Encrypt = (\<lambda>plaintext _. Inr plaintext),
                 Decrypt = (\<lambda>ciphertext _. Inr ciphertext) \<rparr>"

text \<open>What the round trip asks of a codec: decrypting a ciphertext with the
  associated data it was encrypted with gives the plaintext back.\<close>

definition AEAD_sound :: "AEAD \<Rightarrow> bool" where
  "AEAD_sound a \<longleftrightarrow> (\<forall>p ad c. Encrypt a p ad = Inr c \<longrightarrow> Decrypt a c ad = Inr p)"

text \<open>A small codec that changes the payload and its length and checks the associated
  data, to run the operations with encryption enabled.\<close>

definition test_codec :: AEAD where
  "test_codec =
     \<lparr> Encrypt = (\<lambda>p ad. Inr (ad @ rev p)),
       Decrypt = (\<lambda>c ad. if take (length ad) c = ad then Inr (rev (drop (length ad) c))
                          else Inl (OtherError ''authentication failed'')) \<rparr>" 

record 's Storage =
  client :: "'s client"
  bucketName :: string
  aead :: AEAD

text \<open>\<open>NewStorage\<close>: the client is built from the credentials, the region and the
  endpoint by the SDK and is taken as given; the codec is the configured one, or
  \<open>cleartext\<close> when none is configured.\<close>

record Config =
  cfg_AEAD :: "AEAD option"
  cfg_BucketName :: string

definition NewStorage :: "'s client \<Rightarrow> Config \<Rightarrow> 's Storage" where
  "NewStorage cl config =
     \<lparr> client = cl, bucketName = cfg_BucketName config,
       aead = (case cfg_AEAD config of Some kp \<Rightarrow> kp | None \<Rightarrow> cleartext) \<rparr>"

record KeyInfo =
  Key :: string
  Modified :: Time
  Size :: int
  IsTerminal :: bool

definition LockExpiration :: Duration where
  "LockExpiration = 60 * 1000000000"

definition LockPollInterval :: Duration where
  "LockPollInterval = 1000000000"

section \<open>Key/value operations\<close>

definition Store :: "'s Storage \<Rightarrow> Context \<Rightarrow> string \<Rightarrow> bytes \<Rightarrow> 's \<Rightarrow> error option \<times> 's" where
  "Store s ctx key v \<sigma> =
     (case Encrypt (aead s) v key of
        Inl err \<Rightarrow> (Some (Errorf (''encrypting object '' @ key) err), \<sigma>)
      | Inr encrypted \<Rightarrow>
          (case PutObject (client s) ctx
                  \<lparr> req_Bucket = bucketName s, req_Key = key,
                    req_Body = encrypted, req_ForbidOverwrite = None \<rparr> \<sigma> of
             (Some err, \<sigma>') \<Rightarrow> (Some (Errorf (''writing object '' @ key) err), \<sigma>')
           | (None, \<sigma>') \<Rightarrow> (None, \<sigma>')))"

definition Load :: "'s Storage \<Rightarrow> Context \<Rightarrow> string \<Rightarrow> 's \<Rightarrow> (error + bytes) \<times> 's" where
  "Load s ctx key \<sigma> =
     (case GetObject (client s) ctx \<lparr> req_Bucket = bucketName s, req_Key = key \<rparr> \<sigma> of
        (Inl err, \<sigma>') \<Rightarrow>
          (if is_NoSuchKey err then (Inl ErrNotExist, \<sigma>')
           else (Inl (Errorf (''loading object '' @ key) err), \<sigma>'))
      | (Inr result, \<sigma>') \<Rightarrow>
          (case get_Body result of
             Inl err \<Rightarrow> (Inl (Errorf (''reading object '' @ key) err), \<sigma>')
           | Inr encrypted \<Rightarrow>
               (case Decrypt (aead s) encrypted key of
                  Inl err \<Rightarrow> (Inl (Errorf (''decrypting object '' @ key) err), \<sigma>')
                | Inr decrypted \<Rightarrow> (Inr decrypted, \<sigma>'))))"

definition Delete :: "'s Storage \<Rightarrow> Context \<Rightarrow> string \<Rightarrow> 's \<Rightarrow> error option \<times> 's" where
  "Delete s ctx key \<sigma> =
     (case DeleteObject (client s) ctx \<lparr> req_Bucket = bucketName s, req_Key = key \<rparr> \<sigma> of
        (Some err, \<sigma>') \<Rightarrow>
          (if is_NoSuchKey err then (None, \<sigma>')
           else (Some (Errorf (''deleting object '' @ key) err), \<sigma>'))
      | (None, \<sigma>') \<Rightarrow> (None, \<sigma>'))"

definition Exists :: "'s Storage \<Rightarrow> Context \<Rightarrow> string \<Rightarrow> 's \<Rightarrow> bool \<times> 's" where
  "Exists s ctx key \<sigma> =
     (case HeadObject (client s) ctx \<lparr> req_Bucket = bucketName s, req_Key = key \<rparr> \<sigma> of
        (Inl err, \<sigma>') \<Rightarrow> (if is_NoSuchKey err then (False, \<sigma>') else (False, \<sigma>'))
      | (Inr result, \<sigma>') \<Rightarrow> (True, \<sigma>'))"

text \<open>The loop of \<open>List\<close> over the pages: \<open>names\<close> accumulates the keys of
  \<open>page.Contents\<close>; the first page that fails ends the call.\<close>

fun List_pages :: "(error + ListObjectsV2Result) list \<Rightarrow> string list \<Rightarrow> error + string list" where
  "List_pages [] names = Inr names"
| "List_pages (Inl err # p) names = Inl (Errorf ''listing objects'' err)"
| "List_pages (Inr page # p) names = List_pages p (names @ Contents page)"

definition List_request :: "'s Storage \<Rightarrow> string \<Rightarrow> bool \<Rightarrow> ListObjectsV2Request" where
  "List_request s prefix recursive =
     \<lparr> list_Bucket = bucketName s, list_Prefix = prefix,
       list_Delimiter = (if \<not> recursive then Some ''/'' else None) \<rparr>"

definition List :: "'s Storage \<Rightarrow> Context \<Rightarrow> string \<Rightarrow> bool \<Rightarrow> 's \<Rightarrow> (error + string list) \<times> 's" where
  "List s ctx prefix recursive \<sigma> =
     (case ListObjectsV2Pages (client s) ctx (List_request s prefix recursive) \<sigma> of
        (p, \<sigma>') \<Rightarrow> (List_pages p [], \<sigma>'))"

definition Stat :: "'s Storage \<Rightarrow> Context \<Rightarrow> string \<Rightarrow> 's \<Rightarrow> (error + KeyInfo) \<times> 's" where
  "Stat s ctx key \<sigma> =
     (case HeadObject (client s) ctx \<lparr> req_Bucket = bucketName s, req_Key = key \<rparr> \<sigma> of
        (Inl err, \<sigma>') \<Rightarrow>
          (if is_NoSuchKey err then (Inl ErrNotExist, \<sigma>')
           else (Inl (Errorf (''loading attributes for '' @ key) err), \<sigma>'))
      | (Inr result, \<sigma>') \<Rightarrow>
          (Inr \<lparr> Key = key,
                 Modified = (case LastModified result of Some t \<Rightarrow> t | None \<Rightarrow> 0),
                 Size = ContentLength result,
                 IsTerminal = True \<rparr>, \<sigma>'))"

section \<open>The lock\<close>

definition objLockName :: "string \<Rightarrow> string" where
  "objLockName key = key @ ''.lock''"

text \<open>The request of the conditional put of line 271: an empty body and the
  \<open>ForbidOverwrite\<close> header.\<close>

definition Lock_put_request :: "'s Storage \<Rightarrow> string \<Rightarrow> PutObjectRequest" where
  "Lock_put_request s lockKey =
     \<lparr> req_Bucket = bucketName s, req_Key = lockKey,
       req_Body = [], req_ForbidOverwrite = Some ''true'' \<rparr>"

text \<open>The test of line 303: a marker with no modification time is not expired, and
  the clock is read only when there is one.\<close>

definition Lock_expired :: "'s runtime \<Rightarrow> HeadObjectResult \<Rightarrow> 's \<Rightarrow> bool \<times> 's" where
  "Lock_expired rt result \<sigma> =
     (case LastModified result of
        None \<Rightarrow> (False, \<sigma>)
      | Some t \<Rightarrow> (case time_Now rt \<sigma> of (now, \<sigma>') \<Rightarrow> (t + LockExpiration < now, \<sigma>')))"

text \<open>The three \<open>select\<close> statements of \<open>Lock\<close> are the same: the timer continues
  the loop, a done context ends the call with \<open>ctx.Err()\<close>.\<close>

partial_function (option) Lock_loop ::
  "'s runtime \<Rightarrow> 's Storage \<Rightarrow> Context \<Rightarrow> string \<Rightarrow> 's \<Rightarrow> (error option \<times> 's) option" where
  "Lock_loop rt s ctx lockKey \<sigma> =
     (case PutObject (client s) ctx (Lock_put_request s lockKey) \<sigma> of
        (None, \<sigma>1) \<Rightarrow> Some (None, \<sigma>1)
      | (Some err, \<sigma>1) \<Rightarrow>
          if is_AlreadyExists err then
            (case HeadObject (client s) ctx
                    \<lparr> req_Bucket = bucketName s, req_Key = lockKey \<rparr> \<sigma>1 of
               (Inl herr, \<sigma>2) \<Rightarrow>
                 (case select_After rt LockPollInterval ctx \<sigma>2 of
                    (TimerFired, \<sigma>3) \<Rightarrow> Lock_loop rt s ctx lockKey \<sigma>3
                  | (CtxDone cerr, \<sigma>3) \<Rightarrow> Some (Some cerr, \<sigma>3))
             | (Inr result, \<sigma>2) \<Rightarrow>
                 (case Lock_expired rt result \<sigma>2 of
                    (expired, \<sigma>3) \<Rightarrow>
                      if expired then
                        (case DeleteObject (client s) ctx
                                \<lparr> req_Bucket = bucketName s, req_Key = lockKey \<rparr> \<sigma>3 of
                           (deleteErr, \<sigma>4) \<Rightarrow>
                             if deleteErr = None
                                \<or> (case deleteErr of Some derr \<Rightarrow> is_NoSuchKey derr
                                                     | None \<Rightarrow> False)
                             then Lock_loop rt s ctx lockKey \<sigma>4
                             else
                               (case select_After rt LockPollInterval ctx \<sigma>4 of
                                  (TimerFired, \<sigma>5) \<Rightarrow> Lock_loop rt s ctx lockKey \<sigma>5
                                | (CtxDone cerr, \<sigma>5) \<Rightarrow> Some (Some cerr, \<sigma>5)))
                      else
                        (case select_After rt LockPollInterval ctx \<sigma>3 of
                           (TimerFired, \<sigma>4) \<Rightarrow> Lock_loop rt s ctx lockKey \<sigma>4
                         | (CtxDone cerr, \<sigma>4) \<Rightarrow> Some (Some cerr, \<sigma>4))))
          else Some (Some (Errorf (''creating lock '' @ lockKey) err), \<sigma>1))"

text \<open>One \<open>select\<close> statement and the rest of the loop after it.\<close>

definition Lock_wait ::
  "'s runtime \<Rightarrow> 's Storage \<Rightarrow> Context \<Rightarrow> string \<Rightarrow> 's \<Rightarrow> (error option \<times> 's) option" where
  "Lock_wait rt s ctx lockKey \<sigma> =
     (case select_After rt LockPollInterval ctx \<sigma> of
        (TimerFired, \<sigma>') \<Rightarrow> Lock_loop rt s ctx lockKey \<sigma>'
      | (CtxDone cerr, \<sigma>') \<Rightarrow> Some (Some cerr, \<sigma>'))"

text \<open>One pass through the body of the loop, up to the point where it returns,
  continues at once, or reaches one of the \<open>select\<close> statements.\<close>

datatype 's iteration = Return "error option" 's | Retry 's | Wait 's

definition Lock_iteration ::
  "'s runtime \<Rightarrow> 's Storage \<Rightarrow> Context \<Rightarrow> string \<Rightarrow> 's \<Rightarrow> 's iteration" where
  "Lock_iteration rt s ctx lockKey \<sigma> =
     (case PutObject (client s) ctx (Lock_put_request s lockKey) \<sigma> of
        (None, \<sigma>1) \<Rightarrow> Return None \<sigma>1
      | (Some err, \<sigma>1) \<Rightarrow>
          if is_AlreadyExists err then
            (case HeadObject (client s) ctx
                    \<lparr> req_Bucket = bucketName s, req_Key = lockKey \<rparr> \<sigma>1 of
               (Inl herr, \<sigma>2) \<Rightarrow> Wait \<sigma>2
             | (Inr result, \<sigma>2) \<Rightarrow>
                 (case Lock_expired rt result \<sigma>2 of
                    (expired, \<sigma>3) \<Rightarrow>
                      if expired then
                        (case DeleteObject (client s) ctx
                                \<lparr> req_Bucket = bucketName s, req_Key = lockKey \<rparr> \<sigma>3 of
                           (deleteErr, \<sigma>4) \<Rightarrow>
                             if deleteErr = None
                                \<or> (case deleteErr of Some derr \<Rightarrow> is_NoSuchKey derr
                                                     | None \<Rightarrow> False)
                             then Retry \<sigma>4
                             else Wait \<sigma>4)
                      else Wait \<sigma>3))
          else Return (Some (Errorf (''creating lock '' @ lockKey) err)) \<sigma>1)"

text \<open>\<open>Lock_reaches rt s ctx lockKey \<sigma>0 \<sigma>\<close>: the loop started in state \<open>\<sigma>0\<close> is at
  the top of the loop, about to make its conditional put, in state \<open>\<sigma>\<close>. It gets
  there by continuing at once or by a wait that the timer ended.\<close>

inductive Lock_reaches ::
  "'s runtime \<Rightarrow> 's Storage \<Rightarrow> Context \<Rightarrow> string \<Rightarrow> 's \<Rightarrow> 's \<Rightarrow> bool"
  for rt s ctx lockKey \<sigma>0 where
    start: "Lock_reaches rt s ctx lockKey \<sigma>0 \<sigma>0"
  | retry: "Lock_reaches rt s ctx lockKey \<sigma>0 \<sigma> \<Longrightarrow>
            Lock_iteration rt s ctx lockKey \<sigma> = Retry \<sigma>' \<Longrightarrow>
            Lock_reaches rt s ctx lockKey \<sigma>0 \<sigma>'"
  | timer: "Lock_reaches rt s ctx lockKey \<sigma>0 \<sigma> \<Longrightarrow>
            Lock_iteration rt s ctx lockKey \<sigma> = Wait \<sigma>w \<Longrightarrow>
            select_After rt LockPollInterval ctx \<sigma>w = (TimerFired, \<sigma>') \<Longrightarrow>
            Lock_reaches rt s ctx lockKey \<sigma>0 \<sigma>'"

definition Lock ::
  "'s runtime \<Rightarrow> 's Storage \<Rightarrow> Context \<Rightarrow> string \<Rightarrow> 's \<Rightarrow> (error option \<times> 's) option" where
  "Lock rt s ctx key \<sigma> = Lock_loop rt s ctx (objLockName key) \<sigma>"

definition Unlock :: "'s Storage \<Rightarrow> Context \<Rightarrow> string \<Rightarrow> 's \<Rightarrow> error option \<times> 's" where
  "Unlock s ctx key \<sigma> =
     (let lockKey = objLockName key; deleteCtx = Background in
      case DeleteObject (client s) deleteCtx
             \<lparr> req_Bucket = bucketName s, req_Key = lockKey \<rparr> \<sigma> of
        (Some err, \<sigma>') \<Rightarrow>
          (if is_NoSuchKey err then (None, \<sigma>')
           else (Some (Errorf (''deleting lock '' @ lockKey) err), \<sigma>'))
      | (None, \<sigma>') \<Rightarrow> (None, \<sigma>'))"

section \<open>A reference bucket\<close>

text \<open>
  The object store itself is a remote service and no part of the repository. This
  in-memory bucket follows the contract the specification gives for it (section 4.1):
  \<open>get\<close>, \<open>head\<close> and \<open>delete\<close> of a missing key answer \<open>NoSuchKey\<close>; a put
  with \<open>ForbidOverwrite\<close> succeeds only if the key is absent and answers
  \<open>FileAlreadyExists\<close> otherwise; a call made with a context that is done fails
  with the context's error and changes nothing. Listing with a delimiter groups the
  keys as the object service documents it: a key whose remainder after the prefix
  contains the delimiter is rolled up into \<open>CommonPrefixes\<close> (the prefix and the
  remainder up to and including the first delimiter), every other key under the
  prefix is in \<open>Contents\<close>. One bucket is modelled, so the bucket name is not read.
\<close>

record stored_object =
  obj_body :: bytes
  obj_modified :: Time

record bucket =
  objects :: "(string \<times> stored_object) list"
  clock :: Time
  caller_done :: "error option"

definition ctx_Err :: "bucket \<Rightarrow> Context \<Rightarrow> error option" where
  "ctx_Err b ctx = (case ctx of Background \<Rightarrow> None | CallerCtx \<Rightarrow> caller_done b)"

definition mem_PutObject :: "Context \<Rightarrow> PutObjectRequest \<Rightarrow> bucket \<Rightarrow> error option \<times> bucket" where
  "mem_PutObject ctx req b =
     (case ctx_Err b ctx of
        Some cerr \<Rightarrow> (Some cerr, b)
      | None \<Rightarrow>
          if req_ForbidOverwrite req = Some ''true'' \<and> map_of (objects b) (req_Key req) \<noteq> None
          then (Some (ServiceError ''FileAlreadyExists''), b)
          else (None, b\<lparr> objects :=
                  AList.update (req_Key req)
                    \<lparr> obj_body = req_Body req, obj_modified = clock b \<rparr> (objects b) \<rparr>))"

definition mem_GetObject ::
  "Context \<Rightarrow> ObjectRequest \<Rightarrow> bucket \<Rightarrow> (error + GetObjectResult) \<times> bucket" where
  "mem_GetObject ctx req b =
     (case ctx_Err b ctx of
        Some cerr \<Rightarrow> (Inl cerr, b)
      | None \<Rightarrow>
          (case map_of (objects b) (req_Key req) of
             None \<Rightarrow> (Inl (ServiceError ''NoSuchKey''), b)
           | Some obj \<Rightarrow> (Inr \<lparr> get_Body = Inr (obj_body obj) \<rparr>, b)))"

definition mem_DeleteObject :: "Context \<Rightarrow> ObjectRequest \<Rightarrow> bucket \<Rightarrow> error option \<times> bucket" where
  "mem_DeleteObject ctx req b =
     (case ctx_Err b ctx of
        Some cerr \<Rightarrow> (Some cerr, b)
      | None \<Rightarrow>
          (case map_of (objects b) (req_Key req) of
             None \<Rightarrow> (Some (ServiceError ''NoSuchKey''), b)
           | Some obj \<Rightarrow> (None, b\<lparr> objects := AList.delete (req_Key req) (objects b) \<rparr>)))"

definition mem_HeadObject ::
  "Context \<Rightarrow> ObjectRequest \<Rightarrow> bucket \<Rightarrow> (error + HeadObjectResult) \<times> bucket" where
  "mem_HeadObject ctx req b =
     (case ctx_Err b ctx of
        Some cerr \<Rightarrow> (Inl cerr, b)
      | None \<Rightarrow>
          (case map_of (objects b) (req_Key req) of
             None \<Rightarrow> (Inl (ServiceError ''NoSuchKey''), b)
           | Some obj \<Rightarrow>
               (Inr \<lparr> LastModified = Some (obj_modified obj),
                      ContentLength = int (length (obj_body obj)) \<rparr>, b)))"

definition HasPrefix :: "string \<Rightarrow> string \<Rightarrow> bool" where
  "HasPrefix s prefix \<longleftrightarrow> take (length prefix) s = prefix"

text \<open>\<open>upto_delimiter d r\<close> is the part of \<open>r\<close> up to and including the first
  occurrence of the delimiter \<open>d\<close>, if there is one.\<close>

fun upto_delimiter :: "string \<Rightarrow> string \<Rightarrow> string option" where
  "upto_delimiter d [] = None"
| "upto_delimiter d (c # r) =
     (if d \<noteq> [] \<and> HasPrefix (c # r) d then Some d
      else map_option ((#) c) (upto_delimiter d r))"

definition common_prefix_of :: "string \<Rightarrow> string \<Rightarrow> string \<Rightarrow> string option" where
  "common_prefix_of prefix d k =
     map_option ((@) prefix) (upto_delimiter d (drop (length prefix) k))"

definition mem_ListObjectsV2Pages ::
  "Context \<Rightarrow> ListObjectsV2Request \<Rightarrow> bucket \<Rightarrow> (error + ListObjectsV2Result) list \<times> bucket" where
  "mem_ListObjectsV2Pages ctx req b =
     (case ctx_Err b ctx of
        Some cerr \<Rightarrow> ([Inl cerr], b)
      | None \<Rightarrow>
          (let ks = filter (\<lambda>k. HasPrefix k (list_Prefix req)) (map fst (objects b)) in
           case list_Delimiter req of
             None \<Rightarrow> ([Inr \<lparr> Contents = ks, CommonPrefixes = [] \<rparr>], b)
           | Some d \<Rightarrow>
               ([Inr \<lparr> Contents =
                         filter (\<lambda>k. common_prefix_of (list_Prefix req) d k = None) ks,
                       CommonPrefixes =
                         remdups (List.map_filter (common_prefix_of (list_Prefix req) d) ks) \<rparr>],
                b)))"

definition mem_client :: "bucket client" where
  "mem_client =
     \<lparr> PutObject = mem_PutObject, GetObject = mem_GetObject,
       DeleteObject = mem_DeleteObject, HeadObject = mem_HeadObject,
       ListObjectsV2Pages = mem_ListObjectsV2Pages \<rparr>"

text \<open>The runtime over the bucket's clock: a wait ends at once when the context is
  done, and otherwise when the timer fires, the clock advanced by the duration.\<close>

definition mem_runtime :: "bucket runtime" where
  "mem_runtime =
     \<lparr> time_Now = (\<lambda>b. (clock b, b)),
       select_After = (\<lambda>d ctx b.
          case ctx_Err b ctx of
            Some cerr \<Rightarrow> (CtxDone cerr, b)
          | None \<Rightarrow> (TimerFired, b\<lparr> clock := clock b + d \<rparr>)) \<rparr>"

definition empty_bucket :: bucket where
  "empty_bucket = \<lparr> objects = [], clock = 0, caller_done = None \<rparr>"

definition mem_storage :: "AEAD \<Rightarrow> bucket Storage" where
  "mem_storage a = \<lparr> client = mem_client, bucketName = ''some-bucket'', aead = a \<rparr>"

text \<open>
  Two callers on the reference bucket. The state of the outside world that one
  caller's calls pass along is the shared bucket, and what another caller does shows
  between two of its calls. \<open>other_caller_Lock key\<close> is a whole \<open>Lock key\<close> call of a
  second caller, as its effect on the bucket; \<open>interleaved_runtime f\<close> is the runtime
  of the first caller when the other process does \<open>f\<close> right after the first
  caller has read the clock for the staleness test of line 303, before its delete of
  line 305. \<open>stale_bucket\<close> holds a marker for \<open>r\<close> that is 70 s old, left by a holder
  that never unlocked; \<open>held_bucket\<close> holds a marker created at the present time.
\<close>

definition other_caller_Lock :: "string \<Rightarrow> bucket \<Rightarrow> bucket" where
  "other_caller_Lock key b =
     (case Lock mem_runtime (mem_storage cleartext) CallerCtx key b of
        Some (r, b') \<Rightarrow> b'
      | None \<Rightarrow> b)"

definition interleaved_runtime :: "(bucket \<Rightarrow> bucket) \<Rightarrow> bucket runtime" where
  "interleaved_runtime f = mem_runtime\<lparr> time_Now := (\<lambda>b. (clock b, f b)) \<rparr>"

definition stale_bucket :: bucket where
  "stale_bucket =
     \<lparr> objects = [(''r.lock'', \<lparr> obj_body = [], obj_modified = 0 \<rparr>)],
       clock = 70000000000, caller_done = None \<rparr>"

definition held_bucket :: bucket where
  "held_bucket =
     \<lparr> objects = [(''r.lock'', \<lparr> obj_body = [], obj_modified = 70000000000 \<rparr>)],
       clock = 70000000000, caller_done = None \<rparr>"

section \<open>A scripted environment\<close>

text \<open>
  The outside world as one caller sees it while other processes work on the same
  store: a list of answers, consumed in order, and the list of the calls made so far.
  A call the script has no answer for fails with \<open>OtherError\<close> (a clock read
  gives 0, a wait ends with the timer).
\<close>

datatype answer =
    PutAnswer "error option"
  | GetAnswer "error + GetObjectResult"
  | DeleteAnswer "error option"
  | HeadAnswer "error + HeadObjectResult"
  | ListAnswer "(error + ListObjectsV2Result) list"
  | NowAnswer Time
  | WakeAnswer wake

datatype call =
    PutCall Context PutObjectRequest
  | GetCall Context ObjectRequest
  | DeleteCall Context ObjectRequest
  | HeadCall Context ObjectRequest
  | ListCall Context ListObjectsV2Request
  | NowCall
  | SelectCall Duration Context

record script =
  answers :: "answer list"
  calls :: "call list"

definition next_answer :: "call \<Rightarrow> script \<Rightarrow> answer option \<times> script" where
  "next_answer c sc =
     (case answers sc of
        [] \<Rightarrow> (None, sc\<lparr> calls := calls sc @ [c] \<rparr>)
      | a # as \<Rightarrow> (Some a, \<lparr> answers = as, calls = calls sc @ [c] \<rparr>))"

definition script_client :: "script client" where
  "script_client =
     \<lparr> PutObject = (\<lambda>ctx req sc.
          case next_answer (PutCall ctx req) sc of
            (Some (PutAnswer r), sc') \<Rightarrow> (r, sc')
          | (_, sc') \<Rightarrow> (Some (OtherError ''script''), sc')),
       GetObject = (\<lambda>ctx req sc.
          case next_answer (GetCall ctx req) sc of
            (Some (GetAnswer r), sc') \<Rightarrow> (r, sc')
          | (_, sc') \<Rightarrow> (Inl (OtherError ''script''), sc')),
       DeleteObject = (\<lambda>ctx req sc.
          case next_answer (DeleteCall ctx req) sc of
            (Some (DeleteAnswer r), sc') \<Rightarrow> (r, sc')
          | (_, sc') \<Rightarrow> (Some (OtherError ''script''), sc')),
       HeadObject = (\<lambda>ctx req sc.
          case next_answer (HeadCall ctx req) sc of
            (Some (HeadAnswer r), sc') \<Rightarrow> (r, sc')
          | (_, sc') \<Rightarrow> (Inl (OtherError ''script''), sc')),
       ListObjectsV2Pages = (\<lambda>ctx req sc.
          case next_answer (ListCall ctx req) sc of
            (Some (ListAnswer r), sc') \<Rightarrow> (r, sc')
          | (_, sc') \<Rightarrow> ([Inl (OtherError ''script'')], sc')) \<rparr>"

definition script_runtime :: "script runtime" where
  "script_runtime =
     \<lparr> time_Now = (\<lambda>sc.
          case next_answer NowCall sc of
            (Some (NowAnswer t), sc') \<Rightarrow> (t, sc')
          | (_, sc') \<Rightarrow> (0, sc')),
       select_After = (\<lambda>d ctx sc.
          case next_answer (SelectCall d ctx) sc of
            (Some (WakeAnswer w), sc') \<Rightarrow> (w, sc')
          | (_, sc') \<Rightarrow> (TimerFired, sc')) \<rparr>"

definition script_storage :: "script Storage" where
  "script_storage = \<lparr> client = script_client, bucketName = ''some-bucket'', aead = cleartext \<rparr>"

section \<open>Basic facts\<close>

lemma cleartext_sel [simp]:
  "Encrypt cleartext p ad = Inr p" "Decrypt cleartext c ad = Inr c"
  by (simp_all add: cleartext_def)

lemma AEAD_sound_cleartext: "AEAD_sound cleartext"
  by (simp add: AEAD_sound_def)

lemma AEAD_sound_test_codec: "AEAD_sound test_codec"
  by (auto simp: AEAD_sound_def test_codec_def)

lemma mem_client_sel [simp]:
  "PutObject mem_client = mem_PutObject" "GetObject mem_client = mem_GetObject"
  "DeleteObject mem_client = mem_DeleteObject" "HeadObject mem_client = mem_HeadObject"
  "ListObjectsV2Pages mem_client = mem_ListObjectsV2Pages"
  by (simp_all add: mem_client_def)

lemma mem_storage_sel [simp]:
  "client (mem_storage a) = mem_client" "bucketName (mem_storage a) = ''some-bucket''"
  "aead (mem_storage a) = a"
  by (simp_all add: mem_storage_def)

lemma mem_put_get:
  assumes "mem_PutObject ctx \<lparr> req_Bucket = bn, req_Key = k, req_Body = c,
             req_ForbidOverwrite = fo \<rparr> b = (None, b')"
  shows "ctx_Err b' ctx' = ctx_Err b ctx'"
    and "map_of (objects b') k = Some \<lparr> obj_body = c, obj_modified = clock b \<rparr>"
  using assms
  by (auto simp: mem_PutObject_def ctx_Err_def update_conv'
           split: option.splits if_splits Context.splits)

section \<open>Store and Load\<close>

text \<open>
  Claim C2. On the reference bucket, for every key \<open>k\<close> and value \<open>v\<close>: once
  \<open>Store k v\<close> has returned without error, \<open>Load k\<close> (made with a context that
  is not done) returns exactly \<open>v\<close> and leaves the bucket as it is. The storage is
  the one \<open>NewStorage\<close> builds: with no codec configured it uses \<open>cleartext\<close>,
  and a configured codec is asked only to decrypt what it encrypted under the same
  associated data, which is the key on both sides.
\<close>

theorem Store_Load_round_trip:
  assumes "s = NewStorage mem_client config"
    and "\<forall>kp. cfg_AEAD config = Some kp \<longrightarrow> AEAD_sound kp"
    and "Store s ctx k v b = (None, b')"
    and "ctx_Err b' ctx' = None"
  shows "Load s ctx' k b' = (Inr v, b')"
proof -
  have sound: "AEAD_sound (aead s)"
    using assms(1,2)
    by (cases "cfg_AEAD config") (simp_all add: NewStorage_def AEAD_sound_cleartext)
  have cl: "client s = mem_client"
    using assms(1) by (simp add: NewStorage_def)
  from assms(3) obtain c where enc: "Encrypt (aead s) v k = Inr c"
    and put: "mem_PutObject ctx \<lparr> req_Bucket = bucketName s, req_Key = k, req_Body = c,
                req_ForbidOverwrite = None \<rparr> b = (None, b')"
    by (auto simp: Store_def cl split: sum.splits prod.splits option.splits)
  from sound enc have dec: "Decrypt (aead s) c k = Inr v"
    by (simp add: AEAD_sound_def)
  have obj: "map_of (objects b') k = Some \<lparr> obj_body = c, obj_modified = clock b \<rparr>"
    by (rule mem_put_get(2) [OF put])
  show ?thesis
    by (simp add: Load_def cl mem_GetObject_def assms(4) obj dec)
qed

theorem Store_Load_round_trip_witness:
  "Load (NewStorage mem_client \<lparr> cfg_AEAD = None, cfg_BucketName = ''some-bucket'' \<rparr>)
     CallerCtx ''k''
     (snd (Store (NewStorage mem_client \<lparr> cfg_AEAD = None, cfg_BucketName = ''some-bucket'' \<rparr>)
            CallerCtx ''k'' ''data'' empty_bucket))
   = (Inr ''data'',
      \<lparr> objects = [(''k'', \<lparr> obj_body = ''data'', obj_modified = 0 \<rparr>)],
        clock = 0, caller_done = None \<rparr>)
   \<and> Load (NewStorage mem_client \<lparr> cfg_AEAD = Some test_codec, cfg_BucketName = ''some-bucket'' \<rparr>)
       CallerCtx ''k''
       (snd (Store (NewStorage mem_client
                     \<lparr> cfg_AEAD = Some test_codec, cfg_BucketName = ''some-bucket'' \<rparr>)
              CallerCtx ''k'' ''data'' empty_bucket))
   = (Inr ''data'',
      \<lparr> objects = [(''k'', \<lparr> obj_body = ''katad'', obj_modified = 0 \<rparr>)],
        clock = 0, caller_done = None \<rparr>)"
proof -
  let ?b1 = "\<lparr> objects = [(''k'', \<lparr> obj_body = ''data'', obj_modified = 0 \<rparr>)],
              clock = 0, caller_done = None \<rparr>"
  let ?b2 = "\<lparr> objects = [(''k'', \<lparr> obj_body = ''katad'', obj_modified = 0 \<rparr>)],
              clock = 0, caller_done = None \<rparr>"
  let ?c1 = "\<lparr> cfg_AEAD = None, cfg_BucketName = ''some-bucket'' \<rparr>"
  let ?c2 = "\<lparr> cfg_AEAD = Some test_codec, cfg_BucketName = ''some-bucket'' \<rparr>"
  have s1: "Store (NewStorage mem_client ?c1) CallerCtx ''k'' ''data'' empty_bucket = (None, ?b1)"
    by (simp add: Store_def NewStorage_def mem_PutObject_def ctx_Err_def empty_bucket_def)
  have s2: "Store (NewStorage mem_client ?c2) CallerCtx ''k'' ''data'' empty_bucket = (None, ?b2)"
    by (simp add: Store_def NewStorage_def mem_PutObject_def ctx_Err_def empty_bucket_def
          test_codec_def)
  have l1: "Load (NewStorage mem_client ?c1) CallerCtx ''k'' ?b1 = (Inr ''data'', ?b1)"
    by (rule Store_Load_round_trip [OF refl _ s1]) (simp_all add: ctx_Err_def)
  have l2: "Load (NewStorage mem_client ?c2) CallerCtx ''k'' ?b2 = (Inr ''data'', ?b2)"
    by (rule Store_Load_round_trip [OF refl _ s2])
       (simp_all add: ctx_Err_def AEAD_sound_test_codec)
  show ?thesis using l1 l2 by (simp add: s1 s2)
qed

section \<open>Delete\<close>

text \<open>
  Claim C3. \<open>Delete\<close> is idempotent. For every client and key: when the underlying
  delete reports NotFound (a service error with code \<open>NoSuchKey\<close>), \<open>Delete\<close>
  returns no error; every other underlying error is returned to the caller, wrapped
  by the message of \<open>Delete\<close> with the underlying error at the end of the chain;
  and on the reference bucket \<open>Delete\<close> of a key that is not stored returns no error
  and leaves the bucket as it is.
\<close>

theorem Delete_idempotent:
  "(DeleteObject (client s) ctx \<lparr> req_Bucket = bucketName s, req_Key = key \<rparr> \<sigma> = (Some err, \<sigma>')
      \<and> is_NoSuchKey err \<longrightarrow> Delete s ctx key \<sigma> = (None, \<sigma>'))
   \<and> (DeleteObject (client s) ctx \<lparr> req_Bucket = bucketName s, req_Key = key \<rparr> \<sigma> = (Some err, \<sigma>')
      \<and> \<not> is_NoSuchKey err \<longrightarrow>
        Delete s ctx key \<sigma> = (Some (Errorf (''deleting object '' @ key) err), \<sigma>')
        \<and> Unwrap_all (Errorf (''deleting object '' @ key) err) = Unwrap_all err)
   \<and> (ctx_Err b ctx = None \<and> map_of (objects b) key = None \<longrightarrow>
        Delete (mem_storage a) ctx key b = (None, b))"
  by (simp add: Delete_def mem_DeleteObject_def is_NoSuchKey_def)

theorem Delete_idempotent_witness:
  "Delete (mem_storage cleartext) CallerCtx ''does/not/exists'' empty_bucket = (None, empty_bucket)
   \<and> Delete (mem_storage cleartext) CallerCtx ''k'' (empty_bucket\<lparr> caller_done := Some Canceled \<rparr>)
       = (Some (Errorf ''deleting object k'' Canceled), empty_bucket\<lparr> caller_done := Some Canceled \<rparr>)"
proof -
  let ?s = "mem_storage cleartext"
  let ?b = "empty_bucket\<lparr> caller_done := Some Canceled \<rparr>"
  have d1: "DeleteObject (client ?s) CallerCtx \<lparr> req_Bucket = bucketName ?s, req_Key = ''does/not/exists'' \<rparr> empty_bucket
      = (Some (ServiceError ''NoSuchKey''), empty_bucket) \<and> is_NoSuchKey (ServiceError ''NoSuchKey'')"
    by (simp add: mem_DeleteObject_def ctx_Err_def empty_bucket_def is_NoSuchKey_def)
  have d2: "DeleteObject (client ?s) CallerCtx \<lparr> req_Bucket = bucketName ?s, req_Key = ''k'' \<rparr> ?b
      = (Some Canceled, ?b) \<and> \<not> is_NoSuchKey Canceled"
    by (simp add: mem_DeleteObject_def ctx_Err_def empty_bucket_def is_NoSuchKey_def)
  have d3: "ctx_Err empty_bucket CallerCtx = None \<and> map_of (objects empty_bucket) ''does/not/exists'' = None"
    by (simp add: ctx_Err_def empty_bucket_def)
  from Delete_idempotent [where s = ?s and ctx = CallerCtx and key = "''does/not/exists''"
      and \<sigma> = empty_bucket and err = "ServiceError ''NoSuchKey''" and \<sigma>' = empty_bucket
      and b = empty_bucket and a = cleartext]
    Delete_idempotent [where s = ?s and ctx = CallerCtx and key = "''k''"
      and \<sigma> = ?b and err = Canceled and \<sigma>' = ?b and b = ?b and a = cleartext] d1 d2 d3
  show ?thesis by simp
qed

section \<open>Unlock\<close>

lemma Unlock_generic:
  "Unlock s ctx key \<sigma> =
     (case DeleteObject (client s) Background
             \<lparr> req_Bucket = bucketName s, req_Key = key @ ''.lock'' \<rparr> \<sigma> of
        (None, \<sigma>') \<Rightarrow> (None, \<sigma>')
      | (Some err, \<sigma>') \<Rightarrow>
          (if is_NoSuchKey err then None
           else Some (Errorf (''deleting lock '' @ key @ ''.lock'') err), \<sigma>'))"
  by (simp add: Unlock_def objLockName_def Let_def split: option.splits prod.splits)

lemma Unlock_mem:
  "Unlock (mem_storage a) ctx key b =
     (None, b\<lparr> objects := AList.delete (key @ ''.lock'') (objects b) \<rparr>)"
proof (cases "map_of (objects b) (key @ ''.lock'')")
  case None
  then have "AList.delete (key @ ''.lock'') (objects b) = objects b"
    by (simp add: delete_id map_of_eq_None_iff)
  with None show ?thesis
    by (simp add: Unlock_generic mem_DeleteObject_def ctx_Err_def is_NoSuchKey_def)
next
  case (Some obj)
  then show ?thesis
    by (simp add: Unlock_generic mem_DeleteObject_def ctx_Err_def)
qed

text \<open>
  Claim C6. \<open>Unlock key\<close> makes one delete of \<open>key + ".lock"\<close>, with the background
  context whatever context the caller passes; it returns no error when that delete
  succeeds or reports NotFound, and the wrapped error otherwise. On the reference
  bucket, where a call with a done context fails and changes nothing, \<open>Unlock\<close>
  therefore returns no error and leaves no marker for any state of the caller's
  context, and touches no other key.
\<close>

theorem Unlock_deletes_marker:
  "Unlock s ctx key \<sigma> =
     (case DeleteObject (client s) Background
             \<lparr> req_Bucket = bucketName s, req_Key = key @ ''.lock'' \<rparr> \<sigma> of
        (None, \<sigma>') \<Rightarrow> (None, \<sigma>')
      | (Some err, \<sigma>') \<Rightarrow>
          (if is_NoSuchKey err then None
           else Some (Errorf (''deleting lock '' @ key @ ''.lock'') err), \<sigma>'))
   \<and> fst (Unlock (mem_storage a) ctx key b) = None
   \<and> map_of (objects (snd (Unlock (mem_storage a) ctx key b))) (key @ ''.lock'') = None
   \<and> (\<forall>k. k \<noteq> key @ ''.lock'' \<longrightarrow>
         map_of (objects (snd (Unlock (mem_storage a) ctx key b))) k = map_of (objects b) k)"
  by (intro conjI, rule Unlock_generic) (simp_all add: Unlock_mem delete_conv')

theorem Unlock_deletes_marker_witness:
  "Unlock (mem_storage cleartext) CallerCtx ''r''
     \<lparr> objects = [(''r.lock'', \<lparr> obj_body = [], obj_modified = 0 \<rparr>),
                  (''r'', \<lparr> obj_body = ''data'', obj_modified = 0 \<rparr>)],
       clock = 5, caller_done = Some Canceled \<rparr>
   = (None, \<lparr> objects = [(''r'', \<lparr> obj_body = ''data'', obj_modified = 0 \<rparr>)],
              clock = 5, caller_done = Some Canceled \<rparr>)
   \<and> map_of [(''r'', \<lparr> obj_body = ''data'', obj_modified = 0 \<rparr>)] ''r''
       = map_of [(''r.lock'', \<lparr> obj_body = [], obj_modified = 0 \<rparr>),
                 (''r'', \<lparr> obj_body = ''data'', obj_modified = (0::int) \<rparr>)] ''r''"
  using Unlock_deletes_marker [where s = "mem_storage cleartext" and ctx = CallerCtx
     and key = "''r''" and a = cleartext
     and \<sigma> = "\<lparr> objects = [(''r.lock'', \<lparr> obj_body = [], obj_modified = 0 \<rparr>),
                  (''r'', \<lparr> obj_body = ''data'', obj_modified = 0 \<rparr>)],
       clock = 5, caller_done = Some Canceled \<rparr>"
     and b = "\<lparr> objects = [(''r.lock'', \<lparr> obj_body = [], obj_modified = 0 \<rparr>),
                  (''r'', \<lparr> obj_body = ''data'', obj_modified = 0 \<rparr>)],
       clock = 5, caller_done = Some Canceled \<rparr>"]
  by (simp add: mem_DeleteObject_def ctx_Err_def)


section \<open>Stat\<close>

lemma Stat_NotFound:
  "HeadObject (client s) ctx \<lparr> req_Bucket = bucketName s, req_Key = key \<rparr> \<sigma> = (Inl err, \<sigma>')
   \<Longrightarrow> is_NoSuchKey err \<Longrightarrow> Stat s ctx key \<sigma> = (Inl ErrNotExist, \<sigma>')"
  by (simp add: Stat_def)

lemma Stat_present:
  "Stat s ctx key \<sigma> = (Inr info, \<sigma>') \<Longrightarrow>
   Key info = key \<and> IsTerminal info \<and>
   (\<exists>result. HeadObject (client s) ctx \<lparr> req_Bucket = bucketName s, req_Key = key \<rparr> \<sigma>
                = (Inr result, \<sigma>') \<and> Size info = ContentLength result)"
  by (auto simp: Stat_def split: prod.splits sum.splits if_splits)

lemma Stat_mem_missing:
  "ctx_Err b ctx = None \<Longrightarrow> map_of (objects b) key = None \<Longrightarrow>
   Stat (mem_storage a) ctx key b = (Inl ErrNotExist, b)"
  by (simp add: Stat_def mem_HeadObject_def is_NoSuchKey_def)

lemma Stat_mem_after_Store:
  assumes "Store (mem_storage a) ctx key v b = (None, b')" and "ctx_Err b' ctx' = None"
  shows "\<exists>c. Encrypt a v key = Inr c \<and>
     Stat (mem_storage a) ctx' key b' =
       (Inr \<lparr> Key = key, Modified = clock b, Size = int (length c), IsTerminal = True \<rparr>, b')"
proof -
  from assms(1) obtain c where enc: "Encrypt a v key = Inr c"
    and put: "mem_PutObject ctx \<lparr> req_Bucket = ''some-bucket'', req_Key = key, req_Body = c,
                req_ForbidOverwrite = None \<rparr> b = (None, b')"
    by (auto simp: Store_def split: sum.splits prod.splits option.splits)
  have obj: "map_of (objects b') key = Some \<lparr> obj_body = c, obj_modified = clock b \<rparr>"
    by (rule mem_put_get(2) [OF put])
  show ?thesis
    using enc by (simp add: Stat_def mem_HeadObject_def assms(2) obj)
qed

text \<open>
  Claim C8. \<open>Stat key\<close>: when the head of the key reports NotFound, \<open>Stat\<close> returns
  the NotFound error \<open>fs.ErrNotExist\<close>; whenever \<open>Stat\<close> returns a \<open>KeyInfo\<close>, its
  \<open>Key\<close> is the requested key, \<open>IsTerminal\<close> is true and \<open>Size\<close> is the content
  length the head reports. On the reference bucket: a key that is not stored gives
  NotFound, and after \<open>Store key v\<close> has succeeded \<open>Size\<close> is the length of the
  ciphertext the codec produced for \<open>v\<close>, not the length of \<open>v\<close>.
\<close>

theorem Stat_key_info:
  "(HeadObject (client s) ctx \<lparr> req_Bucket = bucketName s, req_Key = key \<rparr> \<sigma> = (Inl err, \<sigma>')
      \<and> is_NoSuchKey err \<longrightarrow> Stat s ctx key \<sigma> = (Inl ErrNotExist, \<sigma>'))
   \<and> (Stat s ctx key \<sigma> = (Inr info, \<sigma>') \<longrightarrow>
        Key info = key \<and> IsTerminal info \<and>
        (\<exists>result. HeadObject (client s) ctx \<lparr> req_Bucket = bucketName s, req_Key = key \<rparr> \<sigma>
                     = (Inr result, \<sigma>') \<and> Size info = ContentLength result))
   \<and> (ctx_Err b ctx = None \<and> map_of (objects b) key = None \<longrightarrow>
        Stat (mem_storage a) ctx key b = (Inl ErrNotExist, b))
   \<and> (Store (mem_storage a) ctx key v b = (None, b') \<and> ctx_Err b' ctx' = None \<longrightarrow>
        (\<exists>c. Encrypt a v key = Inr c \<and>
           Stat (mem_storage a) ctx' key b' =
             (Inr \<lparr> Key = key, Modified = clock b, Size = int (length c), IsTerminal = True \<rparr>,
              b')))"
  using Stat_NotFound [of s ctx key \<sigma> err \<sigma>'] Stat_present [of s ctx key \<sigma> info \<sigma>']
    Stat_mem_missing [of b ctx key a] Stat_mem_after_Store [of a ctx key v b b' ctx']
  by blast

theorem Stat_key_info_witness:
  "Stat (mem_storage test_codec) CallerCtx ''k'' empty_bucket = (Inl ErrNotExist, empty_bucket)
   \<and> Stat (mem_storage test_codec) CallerCtx ''k''
        \<lparr> objects = [(''k'', \<lparr> obj_body = ''katad'', obj_modified = 0 \<rparr>)],
          clock = 0, caller_done = None \<rparr>
      = (Inr \<lparr> Key = ''k'', Modified = 0, Size = 5, IsTerminal = True \<rparr>,
         \<lparr> objects = [(''k'', \<lparr> obj_body = ''katad'', obj_modified = 0 \<rparr>)],
           clock = 0, caller_done = None \<rparr>)
   \<and> length ''data'' = 4"
proof -
  let ?s = "mem_storage test_codec"
  let ?b = "\<lparr> objects = [(''k'', \<lparr> obj_body = ''katad'', obj_modified = 0 \<rparr>)],
             clock = 0, caller_done = None \<rparr>"
  let ?info = "\<lparr> Key = ''k'', Modified = 0, Size = 5, IsTerminal = True \<rparr>"
  have h: "HeadObject (client ?s) CallerCtx \<lparr> req_Bucket = bucketName ?s, req_Key = ''k'' \<rparr> empty_bucket
      = (Inl (ServiceError ''NoSuchKey''), empty_bucket) \<and> is_NoSuchKey (ServiceError ''NoSuchKey'')"
    by (simp add: mem_HeadObject_def ctx_Err_def empty_bucket_def is_NoSuchKey_def)
  have m: "ctx_Err empty_bucket CallerCtx = None \<and> map_of (objects empty_bucket) ''k'' = None"
    by (simp add: ctx_Err_def empty_bucket_def)
  have st: "Store ?s CallerCtx ''k'' ''data'' empty_bucket = (None, ?b) \<and> ctx_Err ?b CallerCtx = None"
    by (simp add: Store_def mem_PutObject_def ctx_Err_def empty_bucket_def test_codec_def)
  have enc: "Encrypt test_codec ''data'' ''k'' = Inr ''katad''"
    by (simp add: test_codec_def)
  note T = Stat_key_info [where s = ?s and ctx = CallerCtx and key = "''k''"
      and \<sigma> = empty_bucket and err = "ServiceError ''NoSuchKey''" and \<sigma>' = empty_bucket
      and b = empty_bucket and a = test_codec and v = "''data''" and b' = ?b and ctx' = CallerCtx]
  from T h have 1: "Stat ?s CallerCtx ''k'' empty_bucket = (Inl ErrNotExist, empty_bucket)"
    by blast
  from T st enc have 2: "Stat ?s CallerCtx ''k'' ?b = (Inr ?info, ?b)"
    by (simp add: empty_bucket_def)
  from 1 2 show ?thesis by simp
qed

section \<open>List\<close>

lemma List_pages_concat:
  "List_pages (map Inr pages) names = Inr (names @ concat (map Contents pages))"
  by (induction pages arbitrary: names) simp_all

lemma List_pages_error:
  "List_pages (map Inr pages @ Inl err # rest) names = Inl (Errorf ''listing objects'' err)"
  by (induction pages arbitrary: names) simp_all


lemma List_all_pages:
  "ListObjectsV2Pages (client s) ctx (List_request s prefix recursive) \<sigma> = (map Inr pages, \<sigma>')
   \<Longrightarrow> List s ctx prefix recursive \<sigma> = (Inr (concat (map Contents pages)), \<sigma>')"
  by (simp add: List_def List_pages_concat)

lemma List_request_delimiter:
  "list_Delimiter (List_request s prefix recursive) = (if recursive then None else Some ''/'')"
  by (simp add: List_request_def)

text \<open>The same listing made recursively, or with the prefix ending in the
  delimiter, does return the stored key.\<close>

lemma List_example_recursive:
  "fst (List (mem_storage cleartext) CallerCtx ''certs/example.com'' True
         (snd (Store (mem_storage cleartext) CallerCtx ''certs/example.com/cert.pem''
                ''PEM-DATA'' empty_bucket))) = Inr [''certs/example.com/cert.pem'']"
  by (simp add: List_def List_request_def Store_def mem_PutObject_def
        mem_ListObjectsV2Pages_def ctx_Err_def empty_bucket_def HasPrefix_def)

lemma List_example_trailing_delimiter:
  "fst (List (mem_storage cleartext) CallerCtx ''certs/example.com/'' False
         (snd (Store (mem_storage cleartext) CallerCtx ''certs/example.com/cert.pem''
                ''PEM-DATA'' empty_bucket))) = Inr [''certs/example.com/cert.pem'']"
  by (simp add: List_def List_request_def Store_def mem_PutObject_def
        mem_ListObjectsV2Pages_def ctx_Err_def empty_bucket_def HasPrefix_def
        common_prefix_of_def)

text \<open>
  Claim C7, at the example of the claim. \<open>List\<close> sends the prefix as it is, with the
  delimiter \<open>/\<close> when not recursive, and collects \<open>page.Contents\<close> only. After
  \<open>Store("certs/example.com/cert.pem", "PEM-DATA")\<close> on the empty reference bucket,
  the key's remainder after the prefix \<open>certs/example.com\<close> is \<open>/cert.pem\<close>, which
  contains the delimiter: the store rolls the key up under the common prefix
  \<open>certs/example.com/\<close>, \<open>Contents\<close> is empty, and \<open>List("certs/example.com",
  recursive = false)\<close> returns no key at all, where the claim has the stored key.
\<close>

theorem List_example_returns_no_key:
  "fst (List (mem_storage cleartext) CallerCtx ''certs/example.com'' False
         (snd (Store (mem_storage cleartext) CallerCtx ''certs/example.com/cert.pem''
                ''PEM-DATA'' empty_bucket))) = Inr []"
  by (simp add: List_def List_request_def Store_def mem_PutObject_def
        mem_ListObjectsV2Pages_def ctx_Err_def empty_bucket_def HasPrefix_def
        common_prefix_of_def)


section \<open>The loop of Lock, one iteration at a time\<close>

lemma Lock_body_iteration:
  fixes loop :: "'s runtime \<Rightarrow> 's Storage \<Rightarrow> Context \<Rightarrow> string \<Rightarrow> 's \<Rightarrow> (error option \<times> 's) option"
  shows
  "(case PutObject (client s) ctx (Lock_put_request s lockKey) \<sigma> of
        (None, \<sigma>1) \<Rightarrow> Some (None, \<sigma>1)
      | (Some err, \<sigma>1) \<Rightarrow>
          if is_AlreadyExists err then
            (case HeadObject (client s) ctx
                    \<lparr> req_Bucket = bucketName s, req_Key = lockKey \<rparr> \<sigma>1 of
               (Inl herr, \<sigma>2) \<Rightarrow>
                 (case select_After rt LockPollInterval ctx \<sigma>2 of
                    (TimerFired, \<sigma>3) \<Rightarrow> loop rt s ctx lockKey \<sigma>3
                  | (CtxDone cerr, \<sigma>3) \<Rightarrow> Some (Some cerr, \<sigma>3))
             | (Inr result, \<sigma>2) \<Rightarrow>
                 (case Lock_expired rt result \<sigma>2 of
                    (expired, \<sigma>3) \<Rightarrow>
                      if expired then
                        (case DeleteObject (client s) ctx
                                \<lparr> req_Bucket = bucketName s, req_Key = lockKey \<rparr> \<sigma>3 of
                           (deleteErr, \<sigma>4) \<Rightarrow>
                             if deleteErr = None
                                \<or> (case deleteErr of Some derr \<Rightarrow> is_NoSuchKey derr
                                                     | None \<Rightarrow> False)
                             then loop rt s ctx lockKey \<sigma>4
                             else
                               (case select_After rt LockPollInterval ctx \<sigma>4 of
                                  (TimerFired, \<sigma>5) \<Rightarrow> loop rt s ctx lockKey \<sigma>5
                                | (CtxDone cerr, \<sigma>5) \<Rightarrow> Some (Some cerr, \<sigma>5)))
                      else
                        (case select_After rt LockPollInterval ctx \<sigma>3 of
                           (TimerFired, \<sigma>4) \<Rightarrow> loop rt s ctx lockKey \<sigma>4
                         | (CtxDone cerr, \<sigma>4) \<Rightarrow> Some (Some cerr, \<sigma>4))))
          else Some (Some (Errorf (''creating lock '' @ lockKey) err), \<sigma>1))
   = (case Lock_iteration rt s ctx lockKey \<sigma> of
        Return r \<sigma>' \<Rightarrow> Some (r, \<sigma>')
      | Retry \<sigma>' \<Rightarrow> loop rt s ctx lockKey \<sigma>'
      | Wait \<sigma>' \<Rightarrow>
          (case select_After rt LockPollInterval ctx \<sigma>' of
             (TimerFired, \<sigma>'') \<Rightarrow> loop rt s ctx lockKey \<sigma>''
           | (CtxDone cerr, \<sigma>'') \<Rightarrow> Some (Some cerr, \<sigma>'')))"
  unfolding Lock_iteration_def
  apply (cases "PutObject (client s) ctx (Lock_put_request s lockKey) \<sigma>")
  subgoal for r1 \<sigma>1
    apply (cases r1)
     apply simp
    subgoal for err
      apply (cases "is_AlreadyExists err")
       prefer 2 apply simp
      apply (cases "HeadObject (client s) ctx \<lparr> req_Bucket = bucketName s, req_Key = lockKey \<rparr> \<sigma>1")
      subgoal for h \<sigma>2
        apply (cases h)
         apply simp
        subgoal for result
          apply (cases "Lock_expired rt result \<sigma>2")
          subgoal for e \<sigma>3
            apply (cases e)
             prefer 2 apply simp
            apply (cases "DeleteObject (client s) ctx \<lparr> req_Bucket = bucketName s, req_Key = lockKey \<rparr> \<sigma>3")
            subgoal for d \<sigma>4
              apply (cases d)
               apply simp
              apply simp
              done
            done
          done
        done
      done
    done
  done

lemma Lock_loop_unfold:
  "Lock_loop rt s ctx lockKey \<sigma> =
     (case Lock_iteration rt s ctx lockKey \<sigma> of
        Return r \<sigma>' \<Rightarrow> Some (r, \<sigma>')
      | Retry \<sigma>' \<Rightarrow> Lock_loop rt s ctx lockKey \<sigma>'
      | Wait \<sigma>' \<Rightarrow> Lock_wait rt s ctx lockKey \<sigma>')"
  unfolding Lock_wait_def
  by (subst Lock_loop.simps) (rule Lock_body_iteration)

lemma Lock_loop_induct [consumes 1, case_names Return Retry TimerFired CtxDone]:
  assumes run: "Lock_loop rt s ctx lockKey \<sigma> = Some y"
    and ret: "\<And>\<sigma> r \<sigma>'. Lock_iteration rt s ctx lockKey \<sigma> = Return r \<sigma>' \<Longrightarrow> P \<sigma> (r, \<sigma>')"
    and retry: "\<And>\<sigma> \<sigma>' y. Lock_iteration rt s ctx lockKey \<sigma> = Retry \<sigma>' \<Longrightarrow>
        Lock_loop rt s ctx lockKey \<sigma>' = Some y \<Longrightarrow> P \<sigma>' y \<Longrightarrow> P \<sigma> y"
    and timer: "\<And>\<sigma> \<sigma>' \<sigma>'' y. Lock_iteration rt s ctx lockKey \<sigma> = Wait \<sigma>' \<Longrightarrow>
        select_After rt LockPollInterval ctx \<sigma>' = (TimerFired, \<sigma>'') \<Longrightarrow>
        Lock_loop rt s ctx lockKey \<sigma>'' = Some y \<Longrightarrow> P \<sigma>'' y \<Longrightarrow> P \<sigma> y"
    and cancel: "\<And>\<sigma> \<sigma>' \<sigma>'' cerr. Lock_iteration rt s ctx lockKey \<sigma> = Wait \<sigma>' \<Longrightarrow>
        select_After rt LockPollInterval ctx \<sigma>' = (CtxDone cerr, \<sigma>'') \<Longrightarrow> P \<sigma> (Some cerr, \<sigma>'')"
  shows "P \<sigma> y"
proof -
  have "rt = rt \<and> s = s \<and> ctx = ctx \<and> lockKey = lockKey \<longrightarrow>
          Lock_loop rt s ctx lockKey \<sigma> = Some y \<and> P \<sigma> y"
  proof (rule Lock_loop.raw_induct
      [where P = "\<lambda>rt' s' ctx' lockKey' \<sigma> y. rt' = rt \<and> s' = s \<and> ctx' = ctx \<and> lockKey' = lockKey \<longrightarrow>
          Lock_loop rt s ctx lockKey \<sigma> = Some y \<and> P \<sigma> y", OF _ run])
    fix loop :: "'a runtime \<Rightarrow> 'a Storage \<Rightarrow> Context \<Rightarrow> string \<Rightarrow> 'a \<Rightarrow> (error option \<times> 'a) option"
    fix rt' s' ctx' lockKey' \<sigma> y
    assume IH: "\<And>rt' s' ctx' lockKey' \<sigma> y. loop rt' s' ctx' lockKey' \<sigma> = Some y \<Longrightarrow>
        rt' = rt \<and> s' = s \<and> ctx' = ctx \<and> lockKey' = lockKey \<longrightarrow>
          Lock_loop rt s ctx lockKey \<sigma> = Some y \<and> P \<sigma> y"
    assume body: "(case PutObject (client s') ctx' (Lock_put_request s' lockKey') \<sigma> of
        (None, \<sigma>1) \<Rightarrow> Some (None, \<sigma>1)
      | (Some err, \<sigma>1) \<Rightarrow>
          if is_AlreadyExists err then
            (case HeadObject (client s') ctx'
                    \<lparr> req_Bucket = bucketName s', req_Key = lockKey' \<rparr> \<sigma>1 of
               (Inl herr, \<sigma>2) \<Rightarrow>
                 (case select_After rt' LockPollInterval ctx' \<sigma>2 of
                    (TimerFired, \<sigma>3) \<Rightarrow> loop rt' s' ctx' lockKey' \<sigma>3
                  | (CtxDone cerr, \<sigma>3) \<Rightarrow> Some (Some cerr, \<sigma>3))
             | (Inr result, \<sigma>2) \<Rightarrow>
                 (case Lock_expired rt' result \<sigma>2 of
                    (expired, \<sigma>3) \<Rightarrow>
                      if expired then
                        (case DeleteObject (client s') ctx'
                                \<lparr> req_Bucket = bucketName s', req_Key = lockKey' \<rparr> \<sigma>3 of
                           (deleteErr, \<sigma>4) \<Rightarrow>
                             if deleteErr = None
                                \<or> (case deleteErr of Some derr \<Rightarrow> is_NoSuchKey derr
                                                     | None \<Rightarrow> False)
                             then loop rt' s' ctx' lockKey' \<sigma>4
                             else
                               (case select_After rt' LockPollInterval ctx' \<sigma>4 of
                                  (TimerFired, \<sigma>5) \<Rightarrow> loop rt' s' ctx' lockKey' \<sigma>5
                                | (CtxDone cerr, \<sigma>5) \<Rightarrow> Some (Some cerr, \<sigma>5)))
                      else
                        (case select_After rt' LockPollInterval ctx' \<sigma>3 of
                           (TimerFired, \<sigma>4) \<Rightarrow> loop rt' s' ctx' lockKey' \<sigma>4
                         | (CtxDone cerr, \<sigma>4) \<Rightarrow> Some (Some cerr, \<sigma>4))))
          else Some (Some (Errorf (''creating lock '' @ lockKey') err), \<sigma>1)) = Some y"
    show "rt' = rt \<and> s' = s \<and> ctx' = ctx \<and> lockKey' = lockKey \<longrightarrow>
          Lock_loop rt s ctx lockKey \<sigma> = Some y \<and> P \<sigma> y"
    proof
      assume eq: "rt' = rt \<and> s' = s \<and> ctx' = ctx \<and> lockKey' = lockKey"
      from body eq have it: "(case Lock_iteration rt s ctx lockKey \<sigma> of
            Return r \<sigma>' \<Rightarrow> Some (r, \<sigma>')
          | Retry \<sigma>' \<Rightarrow> loop rt s ctx lockKey \<sigma>'
          | Wait \<sigma>' \<Rightarrow>
              (case select_After rt LockPollInterval ctx \<sigma>' of
                 (TimerFired, \<sigma>'') \<Rightarrow> loop rt s ctx lockKey \<sigma>''
               | (CtxDone cerr, \<sigma>'') \<Rightarrow> Some (Some cerr, \<sigma>''))) = Some y"
        by (simp only: Lock_body_iteration)
      show "Lock_loop rt s ctx lockKey \<sigma> = Some y \<and> P \<sigma> y"
      proof (cases "Lock_iteration rt s ctx lockKey \<sigma>")
        case (Return r \<sigma>')
        with it have "y = (r, \<sigma>')" by simp
        with Return ret [OF Return] show ?thesis
          by (simp add: Lock_loop_unfold [of rt s ctx lockKey \<sigma>])
      next
        case (Retry \<sigma>')
        with it have "loop rt s ctx lockKey \<sigma>' = Some y" by simp
        from IH [OF this] have "Lock_loop rt s ctx lockKey \<sigma>' = Some y" "P \<sigma>' y" by simp_all
        with Retry retry [OF Retry] show ?thesis
          by (simp add: Lock_loop_unfold [of rt s ctx lockKey \<sigma>])
      next
        case (Wait \<sigma>')
        obtain w \<sigma>'' where sel: "select_After rt LockPollInterval ctx \<sigma>' = (w, \<sigma>'')"
          by (cases "select_After rt LockPollInterval ctx \<sigma>'")
        show ?thesis
        proof (cases w)
          case TimerFired
          with it Wait sel have "loop rt s ctx lockKey \<sigma>'' = Some y" by simp
          from IH [OF this] have "Lock_loop rt s ctx lockKey \<sigma>'' = Some y" "P \<sigma>'' y" by simp_all
          with Wait sel TimerFired timer [OF Wait] show ?thesis
            by (simp add: Lock_loop_unfold [of rt s ctx lockKey \<sigma>] Lock_wait_def)
        next
          case (CtxDone cerr)
          with it Wait sel have "y = (Some cerr, \<sigma>'')" by simp
          with Wait sel CtxDone cancel [OF Wait] show ?thesis
            by (simp add: Lock_loop_unfold [of rt s ctx lockKey \<sigma>] Lock_wait_def)
        qed
      qed
    qed
  qed
  then show ?thesis by simp
qed


lemma Lock_iteration_Return_None:
  "Lock_iteration rt s ctx lockKey \<sigma> = Return None \<sigma>' \<Longrightarrow>
   PutObject (client s) ctx (Lock_put_request s lockKey) \<sigma> = (None, \<sigma>')"
  by (auto simp: Lock_iteration_def split: prod.splits option.splits sum.splits if_splits)

lemma Lock_iteration_put_ok:
  "PutObject (client s) ctx (Lock_put_request s lockKey) \<sigma> = (None, \<sigma>1)
   \<Longrightarrow> Lock_iteration rt s ctx lockKey \<sigma> = Return None \<sigma>1"
  by (simp add: Lock_iteration_def)

lemma Lock_iteration_put_fatal:
  "PutObject (client s) ctx (Lock_put_request s lockKey) \<sigma> = (Some err, \<sigma>1)
   \<Longrightarrow> \<not> is_AlreadyExists err
   \<Longrightarrow> Lock_iteration rt s ctx lockKey \<sigma> =
         Return (Some (Errorf (''creating lock '' @ lockKey) err)) \<sigma>1"
  by (simp add: Lock_iteration_def)

lemma Lock_iteration_head_error:
  "PutObject (client s) ctx (Lock_put_request s lockKey) \<sigma> = (Some err, \<sigma>1)
   \<Longrightarrow> is_AlreadyExists err
   \<Longrightarrow> HeadObject (client s) ctx \<lparr> req_Bucket = bucketName s, req_Key = lockKey \<rparr> \<sigma>1
         = (Inl herr, \<sigma>2)
   \<Longrightarrow> Lock_iteration rt s ctx lockKey \<sigma> = Wait \<sigma>2"
  by (simp add: Lock_iteration_def)

lemma Lock_iteration_fresh:
  "PutObject (client s) ctx (Lock_put_request s lockKey) \<sigma> = (Some err, \<sigma>1)
   \<Longrightarrow> is_AlreadyExists err
   \<Longrightarrow> HeadObject (client s) ctx \<lparr> req_Bucket = bucketName s, req_Key = lockKey \<rparr> \<sigma>1
         = (Inr result, \<sigma>2)
   \<Longrightarrow> Lock_expired rt result \<sigma>2 = (False, \<sigma>3)
   \<Longrightarrow> Lock_iteration rt s ctx lockKey \<sigma> = Wait \<sigma>3"
  by (simp add: Lock_iteration_def)

lemma Lock_iteration_stale:
  "PutObject (client s) ctx (Lock_put_request s lockKey) \<sigma> = (Some err, \<sigma>1)
   \<Longrightarrow> is_AlreadyExists err
   \<Longrightarrow> HeadObject (client s) ctx \<lparr> req_Bucket = bucketName s, req_Key = lockKey \<rparr> \<sigma>1
         = (Inr result, \<sigma>2)
   \<Longrightarrow> Lock_expired rt result \<sigma>2 = (True, \<sigma>3)
   \<Longrightarrow> DeleteObject (client s) ctx \<lparr> req_Bucket = bucketName s, req_Key = lockKey \<rparr> \<sigma>3
         = (deleteErr, \<sigma>4)
   \<Longrightarrow> Lock_iteration rt s ctx lockKey \<sigma> =
         (case deleteErr of
            None \<Rightarrow> Retry \<sigma>4
          | Some derr \<Rightarrow> if is_NoSuchKey derr then Retry \<sigma>4 else Wait \<sigma>4)"
  by (simp add: Lock_iteration_def split: option.splits)

lemma Lock_iteration_codec:
  assumes c: "client s' = client s" and b: "bucketName s' = bucketName s"
  shows "Lock_iteration rt s' ctx lockKey \<sigma> = Lock_iteration rt s ctx lockKey \<sigma>"
  unfolding Lock_iteration_def Lock_put_request_def c b ..

lemma Lock_loop_codec_Some:
  assumes run: "Lock_loop rt s ctx lockKey \<sigma> = Some y"
    and s': "client s' = client s" "bucketName s' = bucketName s"
  shows "Lock_loop rt s' ctx lockKey \<sigma> = Some y"
  using run
proof (induction rule: Lock_loop_induct)
  case (Return \<sigma> r \<sigma>')
  then show ?case
    by (simp add: Lock_loop_unfold [of rt s' ctx lockKey \<sigma>] Lock_iteration_codec [OF s'])
next
  case (Retry \<sigma> \<sigma>' y)
  then show ?case
    by (simp add: Lock_loop_unfold [of rt s' ctx lockKey \<sigma>] Lock_iteration_codec [OF s'])
next
  case (TimerFired \<sigma> \<sigma>' \<sigma>'' y)
  then show ?case
    by (simp add: Lock_loop_unfold [of rt s' ctx lockKey \<sigma>] Lock_iteration_codec [OF s']
          Lock_wait_def)
next
  case (CtxDone \<sigma> \<sigma>' \<sigma>'' cerr)
  then show ?case
    by (simp add: Lock_loop_unfold [of rt s' ctx lockKey \<sigma>] Lock_iteration_codec [OF s']
          Lock_wait_def)
qed

lemma Lock_loop_codec:
  assumes s': "client s' = client s" "bucketName s' = bucketName s"
  shows "Lock_loop rt s' ctx lockKey \<sigma> = Lock_loop rt s ctx lockKey \<sigma>"
proof (cases "Lock_loop rt s ctx lockKey \<sigma>")
  case None
  show ?thesis
  proof (cases "Lock_loop rt s' ctx lockKey \<sigma>")
    case (Some y)
    from Lock_loop_codec_Some [OF Some] s' have "Lock_loop rt s ctx lockKey \<sigma> = Some y"
      by simp
    with None show ?thesis by simp
  qed (simp add: None)
next
  case (Some y)
  from Lock_loop_codec_Some [OF Some s'] Some show ?thesis by simp
qed

lemma Lock_loop_success_is_put:
  assumes "Lock_loop rt s ctx lockKey \<sigma> = Some y" and "fst y = None"
  shows "\<exists>\<sigma>0. PutObject (client s) ctx (Lock_put_request s lockKey) \<sigma>0 = (None, snd y)"
  using assms
proof (induction rule: Lock_loop_induct)
  case (Return \<sigma> r \<sigma>')
  then show ?case by (auto dest: Lock_iteration_Return_None)
qed simp_all

section \<open>Lock markers and the codec\<close>

text \<open>
  Claim C10. Lock markers are written outside the encryption path. \<open>Lock\<close> does
  not depend on the codec of the storage: with any codec \<open>a\<close> in place it behaves
  as before, and the request of its conditional put carries the empty body under
  \<open>key + ".lock"\<close> with the \<open>ForbidOverwrite\<close> header. On the reference bucket, with
  any codec configured, the marker a successful \<open>Lock\<close> leaves is stored with the
  empty byte string as its content.
\<close>

theorem Lock_marker_outside_codec:
  "Lock rt (s\<lparr> aead := a \<rparr>) ctx key \<sigma> = Lock rt s ctx key \<sigma>
   \<and> Lock_put_request (s\<lparr> aead := a \<rparr>) (objLockName key) =
       \<lparr> req_Bucket = bucketName s, req_Key = key @ ''.lock'', req_Body = [],
         req_ForbidOverwrite = Some ''true'' \<rparr>
   \<and> (Lock mem_runtime (mem_storage a) ctx key b = Some (None, b') \<longrightarrow>
        map_of (objects b') (key @ ''.lock'') = Some \<lparr> obj_body = [], obj_modified = clock b' \<rparr>)"
proof (intro conjI impI)
  show "Lock rt (s\<lparr> aead := a \<rparr>) ctx key \<sigma> = Lock rt s ctx key \<sigma>"
    unfolding Lock_def by (rule Lock_loop_codec) simp_all
  show "Lock_put_request (s\<lparr> aead := a \<rparr>) (objLockName key) =
       \<lparr> req_Bucket = bucketName s, req_Key = key @ ''.lock'', req_Body = [],
         req_ForbidOverwrite = Some ''true'' \<rparr>"
    by (simp add: Lock_put_request_def objLockName_def)
  assume "Lock mem_runtime (mem_storage a) ctx key b = Some (None, b')"
  then have "Lock_loop mem_runtime (mem_storage a) ctx (key @ ''.lock'') b = Some (None, b')"
    by (simp add: Lock_def objLockName_def)
  from Lock_loop_success_is_put [OF this]
  obtain b0 where put: "mem_PutObject ctx (Lock_put_request (mem_storage a) (key @ ''.lock'')) b0 = (None, b')"
    by auto
  then have "clock b' = clock b0"
    by (auto simp: mem_PutObject_def split: option.splits if_splits)
  with mem_put_get(2) [OF put [unfolded Lock_put_request_def]]
  show "map_of (objects b') (key @ ''.lock'') = Some \<lparr> obj_body = [], obj_modified = clock b' \<rparr>"
    by simp
qed

theorem Lock_marker_outside_codec_witness:
  "Lock mem_runtime (mem_storage test_codec) CallerCtx ''r'' empty_bucket
     = Some (None, \<lparr> objects = [(''r.lock'', \<lparr> obj_body = [], obj_modified = 0 \<rparr>)],
                     clock = 0, caller_done = None \<rparr>)
   \<and> map_of [(''r.lock'', \<lparr> obj_body = [], obj_modified = (0::int) \<rparr>)] ''r.lock''
       = Some \<lparr> obj_body = [], obj_modified = 0 \<rparr>"
proof -
  let ?b' = "\<lparr> objects = [(''r.lock'', \<lparr> obj_body = [], obj_modified = 0 \<rparr>)],
                     clock = 0, caller_done = None \<rparr>"
  have run: "Lock mem_runtime (mem_storage test_codec) CallerCtx ''r'' empty_bucket = Some (None, ?b')"
    unfolding Lock_def
    by (subst Lock_loop_unfold)
       (simp add: Lock_iteration_def Lock_put_request_def objLockName_def mem_PutObject_def
          ctx_Err_def empty_bucket_def)
  from Lock_marker_outside_codec [where a = test_codec and ctx = CallerCtx and key = "''r''"
      and b = empty_bucket and b' = ?b'] run
  show ?thesis by simp
qed


section \<open>Lock: what follows a failed conditional put\<close>

lemmas script_defs =
  script_runtime_def script_storage_def script_client_def next_answer_def
  is_AlreadyExists_def is_NoSuchKey_def objLockName_def Lock_put_request_def
  LockPollInterval_def LockExpiration_def Lock_expired_def Lock_def

text \<open>
  Claim C4 as stated fails. The conditional put answers AlreadyExists, the head probe
  of the marker answers NotFound, and the context is cancelled next: \<open>Lock\<close> is then
  in the \<open>select\<close> of line 294, waiting for \<open>LockPollInterval\<close>, and returns the
  context's error. It has made no second put.
\<close>

theorem Lock_head_NotFound_counterexample:
  "Lock script_runtime script_storage CallerCtx ''r''
     \<lparr> answers = [PutAnswer (Some (ServiceError ''FileAlreadyExists'')),
                   HeadAnswer (Inl (ServiceError ''NoSuchKey'')),
                   WakeAnswer (CtxDone Canceled)],
       calls = [] \<rparr>
   = Some (Some Canceled,
       \<lparr> answers = [],
         calls = [PutCall CallerCtx \<lparr> req_Bucket = ''some-bucket'', req_Key = ''r.lock'',
                                   req_Body = [], req_ForbidOverwrite = Some ''true'' \<rparr>,
                  HeadCall CallerCtx \<lparr> req_Bucket = ''some-bucket'', req_Key = ''r.lock'' \<rparr>,
                  SelectCall 1000000000 CallerCtx] \<rparr>)"
  by (simp add: script_defs Lock_loop.simps)

text \<open>
  Claim C4, amended. In the loop of \<open>Lock\<close>, if the conditional put fails with
  AlreadyExists and the head probe of the marker fails with NotFound, \<open>Lock\<close> waits
  for \<open>LockPollInterval\<close> or for the context to be done: when the timer fires it
  retries the conditional put from step 2, and when the context is done first it
  returns the context's error.
\<close>

theorem Lock_head_NotFound_waits:
  assumes "PutObject (client s) ctx (Lock_put_request s (key @ ''.lock'')) \<sigma> = (Some err, \<sigma>1)"
    and "is_AlreadyExists err"
    and "HeadObject (client s) ctx \<lparr> req_Bucket = bucketName s, req_Key = key @ ''.lock'' \<rparr> \<sigma>1
           = (Inl herr, \<sigma>2)"
    and "is_NoSuchKey herr"
  shows "Lock rt s ctx key \<sigma> =
           (case select_After rt LockPollInterval ctx \<sigma>2 of
              (TimerFired, \<sigma>3) \<Rightarrow> Lock rt s ctx key \<sigma>3
            | (CtxDone cerr, \<sigma>3) \<Rightarrow> Some (Some cerr, \<sigma>3))"
  unfolding Lock_def objLockName_def
  by (subst Lock_loop_unfold)
     (simp add: Lock_iteration_head_error [OF assms(1,2,3)] Lock_wait_def)

theorem Lock_head_NotFound_waits_witness:
  "Lock script_runtime script_storage CallerCtx ''r''
     \<lparr> answers = [PutAnswer (Some (ServiceError ''FileAlreadyExists'')),
                   HeadAnswer (Inl (ServiceError ''NoSuchKey'')),
                   WakeAnswer TimerFired, PutAnswer None],
       calls = [] \<rparr>
   = Some (None,
       \<lparr> answers = [],
         calls = [PutCall CallerCtx \<lparr> req_Bucket = ''some-bucket'', req_Key = ''r.lock'',
                                   req_Body = [], req_ForbidOverwrite = Some ''true'' \<rparr>,
                  HeadCall CallerCtx \<lparr> req_Bucket = ''some-bucket'', req_Key = ''r.lock'' \<rparr>,
                  SelectCall 1000000000 CallerCtx,
                  PutCall CallerCtx \<lparr> req_Bucket = ''some-bucket'', req_Key = ''r.lock'',
                                   req_Body = [], req_ForbidOverwrite = Some ''true'' \<rparr>] \<rparr>)"
proof -
  let ?put = "PutCall CallerCtx \<lparr> req_Bucket = ''some-bucket'', req_Key = ''r.lock'',
                                   req_Body = [], req_ForbidOverwrite = Some ''true'' \<rparr>"
  let ?head = "HeadCall CallerCtx \<lparr> req_Bucket = ''some-bucket'', req_Key = ''r.lock'' \<rparr>"
  let ?sc = "\<lparr> answers = [PutAnswer (Some (ServiceError ''FileAlreadyExists'')),
                   HeadAnswer (Inl (ServiceError ''NoSuchKey'')),
                   WakeAnswer TimerFired, PutAnswer None], calls = [] \<rparr>"
  let ?sc1 = "\<lparr> answers = [HeadAnswer (Inl (ServiceError ''NoSuchKey'')),
                   WakeAnswer TimerFired, PutAnswer None], calls = [?put] \<rparr>"
  let ?sc2 = "\<lparr> answers = [WakeAnswer TimerFired, PutAnswer None], calls = [?put, ?head] \<rparr>"
  let ?sc3 = "\<lparr> answers = [PutAnswer None],
                calls = [?put, ?head, SelectCall 1000000000 CallerCtx] \<rparr>"
  have 1: "PutObject (client script_storage) CallerCtx
             (Lock_put_request script_storage (''r'' @ ''.lock'')) ?sc
           = (Some (ServiceError ''FileAlreadyExists''), ?sc1)"
    by (simp add: script_defs)
  have 2: "is_AlreadyExists (ServiceError ''FileAlreadyExists'')"
    by (simp add: is_AlreadyExists_def)
  have 3: "HeadObject (client script_storage) CallerCtx
             \<lparr> req_Bucket = bucketName script_storage, req_Key = ''r'' @ ''.lock'' \<rparr> ?sc1
           = (Inl (ServiceError ''NoSuchKey''), ?sc2)"
    by (simp add: script_defs)
  have 4: "is_NoSuchKey (ServiceError ''NoSuchKey'')"
    by (simp add: is_NoSuchKey_def)
  have 5: "select_After script_runtime LockPollInterval CallerCtx ?sc2 = (TimerFired, ?sc3)"
    by (simp add: script_defs)
  have 6: "Lock script_runtime script_storage CallerCtx ''r'' ?sc3
           = Some (None, \<lparr> answers = [],
                calls = [?put, ?head, SelectCall 1000000000 CallerCtx, ?put] \<rparr>)"
    by (simp add: script_defs Lock_loop.simps)
  from Lock_head_NotFound_waits [OF 1 2 3 4, of script_runtime] 5 6
  show ?thesis by simp
qed

text \<open>
  Claim C5 as stated fails. An error of the head probe other than NotFound
  (\<open>AccessDenied\<close>) is not propagated: \<open>Lock\<close> waits, puts again and returns
  success. The same holds for an error of the delete of a stale marker.
\<close>

theorem Lock_error_propagation_counterexample:
  "Lock script_runtime script_storage CallerCtx ''r''
     \<lparr> answers = [PutAnswer (Some (ServiceError ''FileAlreadyExists'')),
                   HeadAnswer (Inl (ServiceError ''AccessDenied'')),
                   WakeAnswer TimerFired, PutAnswer None],
       calls = [] \<rparr>
   = Some (None,
       \<lparr> answers = [],
         calls = [PutCall CallerCtx \<lparr> req_Bucket = ''some-bucket'', req_Key = ''r.lock'',
                                   req_Body = [], req_ForbidOverwrite = Some ''true'' \<rparr>,
                  HeadCall CallerCtx \<lparr> req_Bucket = ''some-bucket'', req_Key = ''r.lock'' \<rparr>,
                  SelectCall 1000000000 CallerCtx,
                  PutCall CallerCtx \<lparr> req_Bucket = ''some-bucket'', req_Key = ''r.lock'',
                                   req_Body = [], req_ForbidOverwrite = Some ''true'' \<rparr>] \<rparr>)
   \<and> Lock script_runtime script_storage CallerCtx ''r''
     \<lparr> answers = [PutAnswer (Some (ServiceError ''FileAlreadyExists'')),
                   HeadAnswer (Inr \<lparr> LastModified = Some 0, ContentLength = 0 \<rparr>),
                   NowAnswer 70000000000,
                   DeleteAnswer (Some (ServiceError ''AccessDenied'')),
                   WakeAnswer TimerFired, PutAnswer None],
       calls = [] \<rparr>
   = Some (None,
       \<lparr> answers = [],
         calls = [PutCall CallerCtx \<lparr> req_Bucket = ''some-bucket'', req_Key = ''r.lock'',
                                   req_Body = [], req_ForbidOverwrite = Some ''true'' \<rparr>,
                  HeadCall CallerCtx \<lparr> req_Bucket = ''some-bucket'', req_Key = ''r.lock'' \<rparr>,
                  NowCall,
                  DeleteCall CallerCtx \<lparr> req_Bucket = ''some-bucket'', req_Key = ''r.lock'' \<rparr>,
                  SelectCall 1000000000 CallerCtx,
                  PutCall CallerCtx \<lparr> req_Bucket = ''some-bucket'', req_Key = ''r.lock'',
                                   req_Body = [], req_ForbidOverwrite = Some ''true'' \<rparr>] \<rparr>)"
  by (simp add: script_defs Lock_loop.simps)

text \<open>
  Claim C5, amended. Any error of the conditional put other than AlreadyExists ends
  the \<open>Lock\<close> call at once with that error, wrapped, and nothing is retried. Within
  the loop no error of the head probe or of the delete of a stale marker is
  propagated: after any error of the head probe, NotFound or not, \<open>Lock\<close> waits for
  \<open>LockPollInterval\<close> and retries the conditional put; after NotFound of the delete
  of a stale marker it retries the conditional put at once, and after any other
  error of that delete it waits for \<open>LockPollInterval\<close> and retries. Such a wait
  ends the call only when the context is done, with the context's error.
\<close>

theorem Lock_error_propagation:
  "(PutObject (client s) ctx (Lock_put_request s (key @ ''.lock'')) \<sigma> = (Some err, \<sigma>p)
      \<and> \<not> is_AlreadyExists err \<longrightarrow>
        Lock rt s ctx key \<sigma> = Some (Some (Errorf (''creating lock '' @ key @ ''.lock'') err), \<sigma>p))
   \<and> (PutObject (client s) ctx (Lock_put_request s (key @ ''.lock'')) \<sigma> = (Some err, \<sigma>p)
      \<and> is_AlreadyExists err
      \<and> HeadObject (client s) ctx \<lparr> req_Bucket = bucketName s, req_Key = key @ ''.lock'' \<rparr> \<sigma>p
           = (Inl herr, \<sigma>h) \<longrightarrow>
        Lock rt s ctx key \<sigma> =
          (case select_After rt LockPollInterval ctx \<sigma>h of
             (TimerFired, \<sigma>') \<Rightarrow> Lock rt s ctx key \<sigma>'
           | (CtxDone cerr, \<sigma>') \<Rightarrow> Some (Some cerr, \<sigma>')))
   \<and> (PutObject (client s) ctx (Lock_put_request s (key @ ''.lock'')) \<sigma> = (Some err, \<sigma>p)
      \<and> is_AlreadyExists err
      \<and> HeadObject (client s) ctx \<lparr> req_Bucket = bucketName s, req_Key = key @ ''.lock'' \<rparr> \<sigma>p
           = (Inr result, \<sigma>h)
      \<and> Lock_expired rt result \<sigma>h = (True, \<sigma>n)
      \<and> DeleteObject (client s) ctx \<lparr> req_Bucket = bucketName s, req_Key = key @ ''.lock'' \<rparr> \<sigma>n
           = (Some derr, \<sigma>d) \<longrightarrow>
        Lock rt s ctx key \<sigma> =
          (if is_NoSuchKey derr then Lock rt s ctx key \<sigma>d
           else (case select_After rt LockPollInterval ctx \<sigma>d of
                   (TimerFired, \<sigma>') \<Rightarrow> Lock rt s ctx key \<sigma>'
                 | (CtxDone cerr, \<sigma>') \<Rightarrow> Some (Some cerr, \<sigma>'))))"
proof (intro conjI impI)
  assume "PutObject (client s) ctx (Lock_put_request s (key @ ''.lock'')) \<sigma> = (Some err, \<sigma>p)
      \<and> \<not> is_AlreadyExists err"
  then show "Lock rt s ctx key \<sigma>
      = Some (Some (Errorf (''creating lock '' @ key @ ''.lock'') err), \<sigma>p)"
    unfolding Lock_def objLockName_def
    by (subst Lock_loop_unfold) (simp add: Lock_iteration_put_fatal)
next
  assume "PutObject (client s) ctx (Lock_put_request s (key @ ''.lock'')) \<sigma> = (Some err, \<sigma>p)
      \<and> is_AlreadyExists err
      \<and> HeadObject (client s) ctx \<lparr> req_Bucket = bucketName s, req_Key = key @ ''.lock'' \<rparr> \<sigma>p
           = (Inl herr, \<sigma>h)"
  then have "Lock_iteration rt s ctx (key @ ''.lock'') \<sigma> = Wait \<sigma>h"
    by (simp add: Lock_iteration_head_error)
  then show "Lock rt s ctx key \<sigma> =
          (case select_After rt LockPollInterval ctx \<sigma>h of
             (TimerFired, \<sigma>') \<Rightarrow> Lock rt s ctx key \<sigma>'
           | (CtxDone cerr, \<sigma>') \<Rightarrow> Some (Some cerr, \<sigma>'))"
    unfolding Lock_def objLockName_def
    by (subst Lock_loop_unfold) (simp add: Lock_wait_def)
next
  assume "PutObject (client s) ctx (Lock_put_request s (key @ ''.lock'')) \<sigma> = (Some err, \<sigma>p)
      \<and> is_AlreadyExists err
      \<and> HeadObject (client s) ctx \<lparr> req_Bucket = bucketName s, req_Key = key @ ''.lock'' \<rparr> \<sigma>p
           = (Inr result, \<sigma>h)
      \<and> Lock_expired rt result \<sigma>h = (True, \<sigma>n)
      \<and> DeleteObject (client s) ctx \<lparr> req_Bucket = bucketName s, req_Key = key @ ''.lock'' \<rparr> \<sigma>n
           = (Some derr, \<sigma>d)"
  then have "Lock_iteration rt s ctx (key @ ''.lock'') \<sigma> =
         (if is_NoSuchKey derr then Retry \<sigma>d else Wait \<sigma>d)"
    using Lock_iteration_stale [of s ctx "key @ ''.lock''" \<sigma> err \<sigma>p result \<sigma>h rt \<sigma>n "Some derr" \<sigma>d]
    by simp
  then show "Lock rt s ctx key \<sigma> =
          (if is_NoSuchKey derr then Lock rt s ctx key \<sigma>d
           else (case select_After rt LockPollInterval ctx \<sigma>d of
                   (TimerFired, \<sigma>') \<Rightarrow> Lock rt s ctx key \<sigma>'
                 | (CtxDone cerr, \<sigma>') \<Rightarrow> Some (Some cerr, \<sigma>')))"
    unfolding Lock_def objLockName_def
    by (subst Lock_loop_unfold) (simp add: Lock_wait_def)
qed

theorem Lock_error_propagation_witness:
  "Lock script_runtime script_storage CallerCtx ''r''
     \<lparr> answers = [PutAnswer (Some (ServiceError ''AccessDenied''))], calls = [] \<rparr>
   = Some (Some (Errorf ''creating lock r.lock'' (ServiceError ''AccessDenied'')),
       \<lparr> answers = [],
         calls = [PutCall CallerCtx \<lparr> req_Bucket = ''some-bucket'', req_Key = ''r.lock'',
                                   req_Body = [], req_ForbidOverwrite = Some ''true'' \<rparr>] \<rparr>)
   \<and> Lock script_runtime script_storage CallerCtx ''r''
     \<lparr> answers = [PutAnswer (Some (ServiceError ''FileAlreadyExists'')),
                   HeadAnswer (Inl (ServiceError ''AccessDenied'')),
                   WakeAnswer (CtxDone Canceled)],
       calls = [] \<rparr>
   = Some (Some Canceled,
       \<lparr> answers = [],
         calls = [PutCall CallerCtx \<lparr> req_Bucket = ''some-bucket'', req_Key = ''r.lock'',
                                   req_Body = [], req_ForbidOverwrite = Some ''true'' \<rparr>,
                  HeadCall CallerCtx \<lparr> req_Bucket = ''some-bucket'', req_Key = ''r.lock'' \<rparr>,
                  SelectCall 1000000000 CallerCtx] \<rparr>)
   \<and> Lock script_runtime script_storage CallerCtx ''r''
     \<lparr> answers = [PutAnswer (Some (ServiceError ''FileAlreadyExists'')),
                   HeadAnswer (Inr \<lparr> LastModified = Some 0, ContentLength = 0 \<rparr>),
                   NowAnswer 70000000000,
                   DeleteAnswer (Some (ServiceError ''AccessDenied'')),
                   WakeAnswer (CtxDone DeadlineExceeded)],
       calls = [] \<rparr>
   = Some (Some DeadlineExceeded,
       \<lparr> answers = [],
         calls = [PutCall CallerCtx \<lparr> req_Bucket = ''some-bucket'', req_Key = ''r.lock'',
                                   req_Body = [], req_ForbidOverwrite = Some ''true'' \<rparr>,
                  HeadCall CallerCtx \<lparr> req_Bucket = ''some-bucket'', req_Key = ''r.lock'' \<rparr>,
                  NowCall,
                  DeleteCall CallerCtx \<lparr> req_Bucket = ''some-bucket'', req_Key = ''r.lock'' \<rparr>,
                  SelectCall 1000000000 CallerCtx] \<rparr>)"
proof -
  let ?put = "PutCall CallerCtx \<lparr> req_Bucket = ''some-bucket'', req_Key = ''r.lock'',
                                   req_Body = [], req_ForbidOverwrite = Some ''true'' \<rparr>"
  let ?head = "HeadCall CallerCtx \<lparr> req_Bucket = ''some-bucket'', req_Key = ''r.lock'' \<rparr>"
  let ?del = "DeleteCall CallerCtx \<lparr> req_Bucket = ''some-bucket'', req_Key = ''r.lock'' \<rparr>"
  let ?sel = "SelectCall 1000000000 CallerCtx"
  let ?AE = "ServiceError ''FileAlreadyExists''"
  let ?AD = "ServiceError ''AccessDenied''"
  let ?res = "\<lparr> LastModified = Some 0, ContentLength = 0 \<rparr>"
  \<comment> \<open>a fatal error of the conditional put\<close>
  let ?a0 = "\<lparr> answers = [PutAnswer (Some ?AD)], calls = [] \<rparr>"
  let ?a1 = "\<lparr> answers = [], calls = [?put] \<rparr>"
  have a: "PutObject (client script_storage) CallerCtx
             (Lock_put_request script_storage (''r'' @ ''.lock'')) ?a0 = (Some ?AD, ?a1)
           \<and> \<not> is_AlreadyExists ?AD"
    by (simp add: script_defs)
  from Lock_error_propagation [where s = script_storage and ctx = CallerCtx and key = "''r''"
      and \<sigma> = ?a0 and err = ?AD and \<sigma>p = ?a1 and rt = script_runtime] a
  have A: "Lock script_runtime script_storage CallerCtx ''r'' ?a0
      = Some (Some (Errorf ''creating lock r.lock'' ?AD), ?a1)"
    by simp
  \<comment> \<open>an error of the head probe\<close>
  let ?b0 = "\<lparr> answers = [PutAnswer (Some ?AE), HeadAnswer (Inl ?AD),
                WakeAnswer (CtxDone Canceled)], calls = [] \<rparr>"
  let ?b1 = "\<lparr> answers = [HeadAnswer (Inl ?AD), WakeAnswer (CtxDone Canceled)], calls = [?put] \<rparr>"
  let ?b2 = "\<lparr> answers = [WakeAnswer (CtxDone Canceled)], calls = [?put, ?head] \<rparr>"
  let ?b3 = "\<lparr> answers = [], calls = [?put, ?head, ?sel] \<rparr>"
  have b: "PutObject (client script_storage) CallerCtx
             (Lock_put_request script_storage (''r'' @ ''.lock'')) ?b0 = (Some ?AE, ?b1)
           \<and> is_AlreadyExists ?AE
           \<and> HeadObject (client script_storage) CallerCtx
               \<lparr> req_Bucket = bucketName script_storage, req_Key = ''r'' @ ''.lock'' \<rparr> ?b1
             = (Inl ?AD, ?b2)"
    by (simp add: script_defs)
  have bs: "select_After script_runtime LockPollInterval CallerCtx ?b2 = (CtxDone Canceled, ?b3)"
    by (simp add: script_defs)
  from Lock_error_propagation [where s = script_storage and ctx = CallerCtx and key = "''r''"
      and \<sigma> = ?b0 and err = ?AE and \<sigma>p = ?b1 and rt = script_runtime
      and herr = ?AD and \<sigma>h = ?b2] b bs
  have B: "Lock script_runtime script_storage CallerCtx ''r'' ?b0 = Some (Some Canceled, ?b3)"
    by simp
  \<comment> \<open>an error of the delete of a stale marker\<close>
  let ?c0 = "\<lparr> answers = [PutAnswer (Some ?AE), HeadAnswer (Inr ?res), NowAnswer 70000000000,
                DeleteAnswer (Some ?AD), WakeAnswer (CtxDone DeadlineExceeded)], calls = [] \<rparr>"
  let ?c1 = "\<lparr> answers = [HeadAnswer (Inr ?res), NowAnswer 70000000000,
                DeleteAnswer (Some ?AD), WakeAnswer (CtxDone DeadlineExceeded)], calls = [?put] \<rparr>"
  let ?c2 = "\<lparr> answers = [NowAnswer 70000000000,
                DeleteAnswer (Some ?AD), WakeAnswer (CtxDone DeadlineExceeded)],
                calls = [?put, ?head] \<rparr>"
  let ?c3 = "\<lparr> answers = [DeleteAnswer (Some ?AD), WakeAnswer (CtxDone DeadlineExceeded)],
                calls = [?put, ?head, NowCall] \<rparr>"
  let ?c4 = "\<lparr> answers = [WakeAnswer (CtxDone DeadlineExceeded)],
                calls = [?put, ?head, NowCall, ?del] \<rparr>"
  let ?c5 = "\<lparr> answers = [], calls = [?put, ?head, NowCall, ?del, ?sel] \<rparr>"
  have c: "PutObject (client script_storage) CallerCtx
             (Lock_put_request script_storage (''r'' @ ''.lock'')) ?c0 = (Some ?AE, ?c1)
           \<and> is_AlreadyExists ?AE
           \<and> HeadObject (client script_storage) CallerCtx
               \<lparr> req_Bucket = bucketName script_storage, req_Key = ''r'' @ ''.lock'' \<rparr> ?c1
             = (Inr ?res, ?c2)
           \<and> Lock_expired script_runtime ?res ?c2 = (True, ?c3)
           \<and> DeleteObject (client script_storage) CallerCtx
               \<lparr> req_Bucket = bucketName script_storage, req_Key = ''r'' @ ''.lock'' \<rparr> ?c3
             = (Some ?AD, ?c4)"
    by (simp add: script_defs)
  have cs: "select_After script_runtime LockPollInterval CallerCtx ?c4
             = (CtxDone DeadlineExceeded, ?c5) \<and> \<not> is_NoSuchKey ?AD"
    by (simp add: script_defs)
  from Lock_error_propagation [where s = script_storage and ctx = CallerCtx and key = "''r''"
      and \<sigma> = ?c0 and err = ?AE and \<sigma>p = ?c1 and rt = script_runtime
      and result = ?res and \<sigma>h = ?c2 and \<sigma>n = ?c3 and derr = ?AD and \<sigma>d = ?c4] c cs
  have C: "Lock script_runtime script_storage CallerCtx ''r'' ?c0
      = Some (Some DeadlineExceeded, ?c5)"
    by simp
  from A B C show ?thesis by simp
qed

section \<open>Lock: two callers and a stale marker\<close>

lemma Lock_reaches_loop:
  "Lock_reaches rt s ctx lockKey \<sigma>0 \<sigma> \<Longrightarrow>
   Lock_loop rt s ctx lockKey \<sigma>0 = Lock_loop rt s ctx lockKey \<sigma>"
proof (induction rule: Lock_reaches.induct)
  case start
  show ?case by simp
next
  case (retry \<sigma> \<sigma>')
  have "Lock_loop rt s ctx lockKey \<sigma> = Lock_loop rt s ctx lockKey \<sigma>'"
    by (subst Lock_loop_unfold) (simp add: retry.hyps)
  with retry.IH show ?case by simp
next
  case (timer \<sigma> \<sigma>w \<sigma>')
  have "Lock_loop rt s ctx lockKey \<sigma> = Lock_loop rt s ctx lockKey \<sigma>'"
    by (subst Lock_loop_unfold) (simp add: timer.hyps Lock_wait_def)
  with timer.IH show ?case by simp
qed

lemma Lock_stale_alone:
  "Lock mem_runtime (mem_storage cleartext) CallerCtx ''r'' stale_bucket = Some (None, held_bucket)"
  unfolding Lock_def objLockName_def
  apply (subst Lock_loop_unfold)
  apply (simp add: Lock_iteration_def Lock_put_request_def mem_PutObject_def mem_HeadObject_def
      mem_DeleteObject_def ctx_Err_def stale_bucket_def held_bucket_def is_AlreadyExists_def
      Lock_expired_def LockExpiration_def mem_runtime_def)
  apply (subst Lock_loop_unfold)
  apply (simp add: Lock_iteration_def Lock_put_request_def mem_PutObject_def ctx_Err_def)
  done

text \<open>
  Claim C1, at a failing run. The bucket holds a stale marker for \<open>r\<close> and two callers
  call \<open>Lock("r")\<close>. The first caller's conditional put fails, its head probe finds the
  marker stale. Before it deletes, the second caller's whole \<open>Lock\<close> runs: it reclaims
  the stale marker, its conditional put succeeds and it returns success. The first
  caller then makes its delete, which names only the key and removes the second
  caller's new marker, puts again and returns success too. Both calls have returned
  with no \<open>Unlock\<close> in between and with a lease that is 0 s old, where the claim has
  exactly one of them return.
\<close>

theorem Lock_two_callers_both_acquire:
  "Lock mem_runtime (mem_storage cleartext) CallerCtx ''r'' stale_bucket = Some (None, held_bucket)
   \<and> other_caller_Lock ''r'' stale_bucket = held_bucket
   \<and> Lock (interleaved_runtime (other_caller_Lock ''r'')) (mem_storage cleartext) CallerCtx ''r''
        stale_bucket = Some (None, held_bucket)
   \<and> map_of (objects held_bucket) ''r.lock''
        = Some \<lparr> obj_body = [], obj_modified = clock held_bucket \<rparr>"
proof -
  have B: "Lock mem_runtime (mem_storage cleartext) CallerCtx ''r'' stale_bucket
           = Some (None, held_bucket)"
    by (rule Lock_stale_alone)
  then have E: "other_caller_Lock ''r'' stale_bucket = held_bucket"
    by (simp add: other_caller_Lock_def)
  let ?S = "mem_storage cleartext"
  let ?rt = "interleaved_runtime (other_caller_Lock ''r'')"
  let ?req = "\<lparr> req_Bucket = bucketName ?S, req_Key = ''r.lock'' \<rparr>"
  let ?res = "\<lparr> LastModified = Some 0, ContentLength = 0 \<rparr>"
  let ?gone = "\<lparr> objects = [], clock = 70000000000, caller_done = None \<rparr>"
  have put: "PutObject (client ?S) CallerCtx (Lock_put_request ?S ''r.lock'') stale_bucket
             = (Some (ServiceError ''FileAlreadyExists''), stale_bucket)"
    by (simp add: Lock_put_request_def mem_PutObject_def ctx_Err_def stale_bucket_def)
  have ae: "is_AlreadyExists (ServiceError ''FileAlreadyExists'')"
    by (simp add: is_AlreadyExists_def)
  have head: "HeadObject (client ?S) CallerCtx ?req stale_bucket = (Inr ?res, stale_bucket)"
    by (simp add: mem_HeadObject_def ctx_Err_def stale_bucket_def)
  have "clock stale_bucket = 70000000000"
    by (simp add: stale_bucket_def)
  then have expired: "Lock_expired ?rt ?res stale_bucket = (True, held_bucket)"
    by (simp add: Lock_expired_def interleaved_runtime_def E LockExpiration_def)
  have del: "DeleteObject (client ?S) CallerCtx ?req held_bucket = (None, ?gone)"
    by (simp add: mem_DeleteObject_def ctx_Err_def held_bucket_def)
  have put2: "PutObject (client ?S) CallerCtx (Lock_put_request ?S ''r.lock'') ?gone
              = (None, held_bucket)"
    by (simp add: Lock_put_request_def mem_PutObject_def ctx_Err_def held_bucket_def)
  have it1: "Lock_iteration ?rt ?S CallerCtx ''r.lock'' stale_bucket = Retry ?gone"
    using Lock_iteration_stale [OF put ae head expired del] by simp
  have it2: "Lock_iteration ?rt ?S CallerCtx ''r.lock'' ?gone = Return None held_bucket"
    by (rule Lock_iteration_put_ok [OF put2])
  have "Lock_loop ?rt ?S CallerCtx ''r.lock'' stale_bucket
        = Lock_loop ?rt ?S CallerCtx ''r.lock'' ?gone"
    by (subst Lock_loop_unfold) (simp add: it1)
  also have "\<dots> = Some (None, held_bucket)"
    by (subst Lock_loop_unfold) (simp add: it2)
  finally have A: "Lock ?rt ?S CallerCtx ''r'' stale_bucket = Some (None, held_bucket)"
    by (simp add: Lock_def objLockName_def)
  show ?thesis using A B E by (simp add: held_bucket_def)
qed

section \<open>Lock: cancellation\<close>

text \<open>
  Claim C9. A \<open>Lock\<close> call started in state \<open>\<sigma>0\<close> is waiting: it is in state \<open>\<sigma>\<close> at
  the top of its loop and this iteration ends in the \<open>select\<close> on \<open>LockPollInterval\<close>
  and the context, in state \<open>\<sigma>w\<close>. If the context is done during that wait, the call
  returns the context's error, in the state in which the \<open>select\<close> ended: it waits no
  further and makes no other call, so the return comes within the one poll interval
  of that \<open>select\<close>. The call leaves no marker of its own: every conditional put it
  made, at the top of each iteration it went through, had failed.
\<close>

theorem Lock_cancelled_while_waiting:
  assumes "Lock_reaches rt s ctx (key @ ''.lock'') \<sigma>0 \<sigma>"
    and "Lock_iteration rt s ctx (key @ ''.lock'') \<sigma> = Wait \<sigma>w"
    and "select_After rt LockPollInterval ctx \<sigma>w = (CtxDone cerr, \<sigma>')"
  shows "Lock rt s ctx key \<sigma>0 = Some (Some cerr, \<sigma>')
     \<and> (\<forall>\<tau>. Lock_reaches rt s ctx (key @ ''.lock'') \<sigma>0 \<tau> \<longrightarrow>
           fst (PutObject (client s) ctx (Lock_put_request s (key @ ''.lock'')) \<tau>) \<noteq> None)"
proof -
  have "Lock_loop rt s ctx (key @ ''.lock'') \<sigma> = Some (Some cerr, \<sigma>')"
    by (subst Lock_loop_unfold) (simp add: assms(2,3) Lock_wait_def)
  with Lock_reaches_loop [OF assms(1)]
  have run: "Lock_loop rt s ctx (key @ ''.lock'') \<sigma>0 = Some (Some cerr, \<sigma>')"
    by simp
  have "fst (PutObject (client s) ctx (Lock_put_request s (key @ ''.lock'')) \<tau>) \<noteq> None"
    if r: "Lock_reaches rt s ctx (key @ ''.lock'') \<sigma>0 \<tau>" for \<tau>
  proof
    assume "fst (PutObject (client s) ctx (Lock_put_request s (key @ ''.lock'')) \<tau>) = None"
    then obtain \<tau>' where "PutObject (client s) ctx (Lock_put_request s (key @ ''.lock'')) \<tau>
        = (None, \<tau>')"
      by (cases "PutObject (client s) ctx (Lock_put_request s (key @ ''.lock'')) \<tau>") simp
    then have "Lock_loop rt s ctx (key @ ''.lock'') \<tau> = Some (None, \<tau>')"
      by (subst Lock_loop_unfold) (simp add: Lock_iteration_put_ok)
    with Lock_reaches_loop [OF r] run show False by simp
  qed
  with run show ?thesis by (simp add: Lock_def objLockName_def)
qed

theorem Lock_cancelled_while_waiting_witness:
  "Lock script_runtime script_storage CallerCtx ''r''
     \<lparr> answers = [PutAnswer (Some (ServiceError ''FileAlreadyExists'')),
                   HeadAnswer (Inr \<lparr> LastModified = Some 0, ContentLength = 0 \<rparr>),
                   NowAnswer 5, WakeAnswer TimerFired,
                   PutAnswer (Some (ServiceError ''FileAlreadyExists'')),
                   HeadAnswer (Inl (ServiceError ''NoSuchKey'')),
                   WakeAnswer (CtxDone Canceled)],
       calls = [] \<rparr>
   = Some (Some Canceled,
       \<lparr> answers = [],
         calls = [PutCall CallerCtx \<lparr> req_Bucket = ''some-bucket'', req_Key = ''r.lock'',
                                   req_Body = [], req_ForbidOverwrite = Some ''true'' \<rparr>,
                  HeadCall CallerCtx \<lparr> req_Bucket = ''some-bucket'', req_Key = ''r.lock'' \<rparr>,
                  NowCall,
                  SelectCall 1000000000 CallerCtx,
                  PutCall CallerCtx \<lparr> req_Bucket = ''some-bucket'', req_Key = ''r.lock'',
                                   req_Body = [], req_ForbidOverwrite = Some ''true'' \<rparr>,
                  HeadCall CallerCtx \<lparr> req_Bucket = ''some-bucket'', req_Key = ''r.lock'' \<rparr>,
                  SelectCall 1000000000 CallerCtx] \<rparr>)
   \<and> fst (PutObject (client script_storage) CallerCtx
            (Lock_put_request script_storage (''r'' @ ''.lock''))
            \<lparr> answers = [PutAnswer (Some (ServiceError ''FileAlreadyExists'')),
                   HeadAnswer (Inl (ServiceError ''NoSuchKey'')),
                   WakeAnswer (CtxDone Canceled)],
              calls = [PutCall CallerCtx \<lparr> req_Bucket = ''some-bucket'', req_Key = ''r.lock'',
                                   req_Body = [], req_ForbidOverwrite = Some ''true'' \<rparr>,
                  HeadCall CallerCtx \<lparr> req_Bucket = ''some-bucket'', req_Key = ''r.lock'' \<rparr>,
                  NowCall,
                  SelectCall 1000000000 CallerCtx] \<rparr>)
       = Some (ServiceError ''FileAlreadyExists'')"
proof -
  let ?put = "PutCall CallerCtx \<lparr> req_Bucket = ''some-bucket'', req_Key = ''r.lock'',
                                   req_Body = [], req_ForbidOverwrite = Some ''true'' \<rparr>"
  let ?head = "HeadCall CallerCtx \<lparr> req_Bucket = ''some-bucket'', req_Key = ''r.lock'' \<rparr>"
  let ?sel = "SelectCall 1000000000 CallerCtx"
  let ?AE = "ServiceError ''FileAlreadyExists''"
  let ?NF = "ServiceError ''NoSuchKey''"
  let ?rest = "[PutAnswer (Some ?AE), HeadAnswer (Inl ?NF), WakeAnswer (CtxDone Canceled)]"
  let ?sc0 = "\<lparr> answers = PutAnswer (Some ?AE)
                 # HeadAnswer (Inr \<lparr> LastModified = Some 0, ContentLength = 0 \<rparr>)
                 # NowAnswer 5 # WakeAnswer TimerFired # ?rest, calls = [] \<rparr>"
  let ?sa = "\<lparr> answers = WakeAnswer TimerFired # ?rest, calls = [?put, ?head, NowCall] \<rparr>"
  let ?sc1 = "\<lparr> answers = ?rest, calls = [?put, ?head, NowCall, ?sel] \<rparr>"
  let ?sw = "\<lparr> answers = [WakeAnswer (CtxDone Canceled)],
               calls = [?put, ?head, NowCall, ?sel, ?put, ?head] \<rparr>"
  let ?fin = "\<lparr> answers = [], calls = [?put, ?head, NowCall, ?sel, ?put, ?head, ?sel] \<rparr>"
  have it0: "Lock_iteration script_runtime script_storage CallerCtx (''r'' @ ''.lock'') ?sc0
             = Wait ?sa"
    by (simp add: Lock_iteration_def script_defs)
  have sel0: "select_After script_runtime LockPollInterval CallerCtx ?sa = (TimerFired, ?sc1)"
    by (simp add: script_defs)
  have r: "Lock_reaches script_runtime script_storage CallerCtx (''r'' @ ''.lock'') ?sc0 ?sc1"
    by (rule Lock_reaches.timer [OF Lock_reaches.start it0 sel0])
  have it1: "Lock_iteration script_runtime script_storage CallerCtx (''r'' @ ''.lock'') ?sc1
             = Wait ?sw"
    by (simp add: Lock_iteration_def script_defs)
  have sel1: "select_After script_runtime LockPollInterval CallerCtx ?sw
              = (CtxDone Canceled, ?fin)"
    by (simp add: script_defs)
  have p: "fst (PutObject (client script_storage) CallerCtx
             (Lock_put_request script_storage (''r'' @ ''.lock'')) ?sc1) = Some ?AE"
    by (simp add: script_defs)
  from Lock_cancelled_while_waiting [OF r it1 sel1] p
  show ?thesis by simp
qed


end
